theory Spec2Isabelle
  imports Complex_Main
begin

section \<open>The physics engine of physics2.py\<close>

text \<open>
  The module defines two classes. \<^verbatim>\<open>Object\<close> is a \<^verbatim>\<open>pygame.Rect\<close> (four integers
  \<^verbatim>\<open>x, y, w, h\<close>) with an upscale factor and a velocity list \<^verbatim>\<open>speed\<close>; \<^verbatim>\<open>Space\<close>
  holds the lists of objects, the flags and the methods of the simulation.

  Both classes declare mutable lists in the class body (\<^verbatim>\<open>speed = [0, 0]\<close>,
  \<^verbatim>\<open>targets = []\<close>, \<^verbatim>\<open>players = []\<close>, \<^verbatim>\<open>boxes = []\<close>, \<^verbatim>\<open>platforms = []\<close>). In Python
  such a list is one object that every instance reads until the attribute is
  assigned on the instance itself. Two kinds of statements occur in the source:
  \<^item> \<^verbatim>\<open>item.speed[0] = 0\<close>, \<^verbatim>\<open>object.speed[1] += v\<close>, \<^verbatim>\<open>self.boxes.append(item)\<close>
    change the list that the lookup finds, in place;
  \<^item> \<^verbatim>\<open>item.speed = [0, 0]\<close>, \<^verbatim>\<open>self.boxes = []\<close> bind a new list on the instance.

  The model therefore keeps the class-level lists in a record of globals, and
  each instance carries an optional list of its own (\<open>None\<close> while the class
  attribute is the one seen). The class attributes with immutable defaults
  (\<^verbatim>\<open>targets_engaged = 0\<close>, \<^verbatim>\<open>thinkingbox = None\<close>, the two flags) are only ever
  assigned on an instance, so they are plain fields with the default as initial
  value.

  Objects have identity (\<^verbatim>\<open>alpha_box is item1\<close>), and collision tuples refer to
  live objects, so objects live in a heap and are named by references.

  Numbers. The arguments of the methods and the fields of \<^verbatim>\<open>Space\<close> are
  Python integers (\<open>int\<close>, unbounded). A \<^verbatim>\<open>pygame.Rect\<close> stores its four
  coordinates as C integers of 32 bits: a Python integer given to the
  constructor or assigned to an attribute is converted first, and sums and
  differences of coordinates are computed in C. Velocities are Python numbers
  that become floats after the first division. A float is represented by the
  rational number it stands for; the rounding of float operations to 53 bits,
  infinities and NaN are not represented, so statements about velocities below
  are either evaluated where the float arithmetic is exact or do not depend on
  the values.
\<close>

subsection \<open>Data model\<close>

type_synonym ref = nat

datatype error = TypeError | IndexError | ZeroDivisionError | AttributeError | OverflowError

record Object =
  rect_x :: int
  rect_y :: int
  rect_w :: int
  rect_h :: int
  o_upscale :: int
  speed :: "(rat \<times> rat) option"

record pyglobals =
  heap :: "ref \<Rightarrow> Object"
  fresh :: ref
  Object_speed :: "rat \<times> rat"
  Space_targets :: "ref list"
  Space_players :: "ref list"
  Space_boxes :: "ref list"
  Space_platforms :: "ref list"

record Space =
  space_w :: int
  space_h :: int
  gravity :: int
  upscale :: int
  targets :: "ref list option"
  targets_engaged :: int
  players :: "ref list option"
  boxes :: "ref list option"
  platforms :: "ref list option"
  thinkingbox :: "ref option"
  player_on_ground :: bool
  player_in_thinkingbox :: bool

text \<open>The second component of a collision tuple is an object or the string \<^verbatim>\<open>"wall"\<close>.\<close>

datatype participant = Item ref | Wall

type_synonym collision = "ref \<times> participant \<times> nat"

text \<open>The dictionary \<^verbatim>\<open>COLLISION_TYPES\<close>.\<close>

definition box_to_target :: nat where "box_to_target = 0"
definition object_to_platform :: nat where "object_to_platform = 1"
definition player_to_box :: nat where "player_to_box = 2"
definition box_to_box :: nat where "box_to_box = 3"
definition player_to_player :: nat where "player_to_player = 4"
definition object_to_border :: nat where "object_to_border = 5"

text \<open>
  A method call either returns a value or raises; in both cases the mutations
  done so far remain, so both outcomes carry the globals and the instance.
\<close>

datatype 'a outcome = Return 'a pyglobals Space | Raise error pyglobals Space

fun globals_after :: "'a outcome \<Rightarrow> pyglobals" where
  "globals_after (Return v g s) = g"
| "globals_after (Raise e g s) = g"

fun space_after :: "'a outcome \<Rightarrow> Space" where
  "space_after (Return v g s) = s"
| "space_after (Raise e g s) = s"

fun raises :: "'a outcome \<Rightarrow> bool" where
  "raises (Return v g s) = False"
| "raises (Raise e g s) = True"

fun error_of :: "'a outcome \<Rightarrow> error option" where
  "error_of (Return v g s) = None"
| "error_of (Raise e g s) = Some e"

subsection \<open>C integers\<close>

text \<open>
  The range of a C \<^verbatim>\<open>int\<close>, and the value that C arithmetic on two of them
  leaves in an \<^verbatim>\<open>int\<close> (two's complement, the high bits dropped).
\<close>

definition c_int_range :: "int \<Rightarrow> bool" where
  "c_int_range v = (- 2147483648 \<le> v \<and> v \<le> 2147483647)"

definition wrap_int :: "int \<Rightarrow> int" where
  "wrap_int v = (v + 2147483648) mod 4294967296 - 2147483648"

text \<open>
  pygame converts a Python integer with \<^verbatim>\<open>pg_IntFromObj\<close>: the value is read as a
  C \<^verbatim>\<open>long\<close> and stored in an \<^verbatim>\<open>int\<close>. Where a \<^verbatim>\<open>long\<close> has 64 bits, a value
  outside the \<^verbatim>\<open>int\<close> range that fits a \<^verbatim>\<open>long\<close> loses its high bits, and a
  value that does not fit a \<^verbatim>\<open>long\<close> makes the caller raise \<^verbatim>\<open>TypeError\<close>. (Where
  a \<^verbatim>\<open>long\<close> has 32 bits every value outside the \<^verbatim>\<open>int\<close> range raises.) Inside
  the \<^verbatim>\<open>int\<close> range the value is kept on every platform; the properties below
  that depend on a conversion are stated for that range.
\<close>

definition pg_IntFromObj :: "int \<Rightarrow> error + int" where
  "pg_IntFromObj v =
     (if - 9223372036854775808 \<le> v \<and> v \<le> 9223372036854775807
      then Inr (wrap_int v) else Inl TypeError)"

subsection \<open>pygame.Rect\<close>

text \<open>
  The part of \<^verbatim>\<open>pygame.Rect\<close> that the module uses: the virtual attributes
  \<^verbatim>\<open>left, top, right, bottom, topleft\<close> (assigning one moves the rectangle and
  keeps its size), the overlap test \<^verbatim>\<open>colliderect\<close> (pygame 2: rectangles of
  zero width or height collide with nothing, touching edges do not overlap),
  the truth value (false when width or height is zero) and equality (of the
  four coordinates).

  \<^verbatim>\<open>right\<close> and \<^verbatim>\<open>bottom\<close> are computed as \<^verbatim>\<open>x + w\<close> and \<^verbatim>\<open>y + h\<close> in C, and
  assigning them stores \<^verbatim>\<open>value - w\<close> and \<^verbatim>\<open>value - h\<close>. The setters below take
  the value after its conversion to a C \<^verbatim>\<open>int\<close>. A value read from a rectangle
  is a C \<^verbatim>\<open>int\<close> and converts back unchanged, so only the assignments of other
  Python integers (in the constructor, in the border block and in the
  integration loop) go through \<open>pg_IntFromObj\<close>.
\<close>

definition rect_ok :: "Object \<Rightarrow> bool" where
  "rect_ok ob =
     (c_int_range (rect_x ob) \<and> c_int_range (rect_y ob)
      \<and> c_int_range (rect_w ob) \<and> c_int_range (rect_h ob))"

definition rect_left :: "Object \<Rightarrow> int" where
  "rect_left ob = rect_x ob"

definition rect_top :: "Object \<Rightarrow> int" where
  "rect_top ob = rect_y ob"

definition rect_right :: "Object \<Rightarrow> int" where
  "rect_right ob = wrap_int (rect_x ob + rect_w ob)"

definition rect_bottom :: "Object \<Rightarrow> int" where
  "rect_bottom ob = wrap_int (rect_y ob + rect_h ob)"

definition set_left :: "int \<Rightarrow> Object \<Rightarrow> Object" where
  "set_left v ob = ob\<lparr>rect_x := v\<rparr>"

definition set_top :: "int \<Rightarrow> Object \<Rightarrow> Object" where
  "set_top v ob = ob\<lparr>rect_y := v\<rparr>"

definition set_right :: "int \<Rightarrow> Object \<Rightarrow> Object" where
  "set_right v ob = ob\<lparr>rect_x := wrap_int (v - rect_w ob)\<rparr>"

definition set_bottom :: "int \<Rightarrow> Object \<Rightarrow> Object" where
  "set_bottom v ob = ob\<lparr>rect_y := wrap_int (v - rect_h ob)\<rparr>"

definition set_topleft :: "int \<times> int \<Rightarrow> Object \<Rightarrow> Object" where
  "set_topleft p ob = ob\<lparr>rect_x := fst p, rect_y := snd p\<rparr>"

definition colliderect :: "Object \<Rightarrow> Object \<Rightarrow> bool" where
  "colliderect a b =
     (if rect_w a = 0 \<or> rect_h a = 0 \<or> rect_w b = 0 \<or> rect_h b = 0 then False
      else min (rect_x a) (wrap_int (rect_x a + rect_w a))
             < max (rect_x b) (wrap_int (rect_x b + rect_w b))
         \<and> min (rect_y a) (wrap_int (rect_y a + rect_h a))
             < max (rect_y b) (wrap_int (rect_y b + rect_h b))
         \<and> max (rect_x a) (wrap_int (rect_x a + rect_w a))
             > min (rect_x b) (wrap_int (rect_x b + rect_w b))
         \<and> max (rect_y a) (wrap_int (rect_y a + rect_h a))
             > min (rect_y b) (wrap_int (rect_y b + rect_h b)))"

definition rect_bool :: "Object \<Rightarrow> bool" where
  "rect_bool ob = (rect_w ob \<noteq> 0 \<and> rect_h ob \<noteq> 0)"

definition rect_eq :: "Object \<Rightarrow> Object \<Rightarrow> bool" where
  "rect_eq a b =
     (rect_x a = rect_x b \<and> rect_y a = rect_y b \<and> rect_w a = rect_w b \<and> rect_h a = rect_h b)"

subsection \<open>Attribute lookup and in-place updates\<close>

definition upd :: "ref \<Rightarrow> (Object \<Rightarrow> Object) \<Rightarrow> pyglobals \<Rightarrow> pyglobals" where
  "upd r f g = g\<lparr>heap := (heap g)(r := f (heap g r))\<rparr>"

text \<open>\<^verbatim>\<open>item.speed\<close>: the instance attribute if bound, the class attribute otherwise.\<close>

definition get_speed :: "pyglobals \<Rightarrow> ref \<Rightarrow> rat \<times> rat" where
  "get_speed g r = (case speed (heap g r) of None \<Rightarrow> Object_speed g | Some v \<Rightarrow> v)"

text \<open>\<^verbatim>\<open>item.speed[0] = v\<close> and \<^verbatim>\<open>item.speed[1] = v\<close>: stores into the list found.\<close>

definition store_speed0 :: "pyglobals \<Rightarrow> ref \<Rightarrow> rat \<Rightarrow> pyglobals" where
  "store_speed0 g r v =
     (case speed (heap g r) of
        None \<Rightarrow> g\<lparr>Object_speed := (v, snd (Object_speed g))\<rparr>
      | Some l \<Rightarrow> upd r (\<lambda>ob. ob\<lparr>speed := Some (v, snd l)\<rparr>) g)"

definition store_speed1 :: "pyglobals \<Rightarrow> ref \<Rightarrow> rat \<Rightarrow> pyglobals" where
  "store_speed1 g r v =
     (case speed (heap g r) of
        None \<Rightarrow> g\<lparr>Object_speed := (fst (Object_speed g), v)\<rparr>
      | Some l \<Rightarrow> upd r (\<lambda>ob. ob\<lparr>speed := Some (fst l, v)\<rparr>) g)"

text \<open>\<^verbatim>\<open>item.speed = [a, b]\<close>: binds a new list on the instance.\<close>

definition assign_speed :: "pyglobals \<Rightarrow> ref \<Rightarrow> rat \<times> rat \<Rightarrow> pyglobals" where
  "assign_speed g r v = upd r (\<lambda>ob. ob\<lparr>speed := Some v\<rparr>) g"

definition targets_of :: "pyglobals \<Rightarrow> Space \<Rightarrow> ref list" where
  "targets_of g s = (case targets s of None \<Rightarrow> Space_targets g | Some l \<Rightarrow> l)"

definition players_of :: "pyglobals \<Rightarrow> Space \<Rightarrow> ref list" where
  "players_of g s = (case players s of None \<Rightarrow> Space_players g | Some l \<Rightarrow> l)"

definition boxes_of :: "pyglobals \<Rightarrow> Space \<Rightarrow> ref list" where
  "boxes_of g s = (case boxes s of None \<Rightarrow> Space_boxes g | Some l \<Rightarrow> l)"

definition platforms_of :: "pyglobals \<Rightarrow> Space \<Rightarrow> ref list" where
  "platforms_of g s = (case platforms s of None \<Rightarrow> Space_platforms g | Some l \<Rightarrow> l)"

text \<open>\<^verbatim>\<open>self.targets.append(item)\<close> and its three siblings.\<close>

definition append_target :: "ref \<Rightarrow> pyglobals \<times> Space \<Rightarrow> pyglobals \<times> Space" where
  "append_target item gs =
     (case targets (snd gs) of
        None \<Rightarrow> ((fst gs)\<lparr>Space_targets := Space_targets (fst gs) @ [item]\<rparr>, snd gs)
      | Some l \<Rightarrow> (fst gs, (snd gs)\<lparr>targets := Some (l @ [item])\<rparr>))"

definition append_player :: "ref \<Rightarrow> pyglobals \<times> Space \<Rightarrow> pyglobals \<times> Space" where
  "append_player item gs =
     (case players (snd gs) of
        None \<Rightarrow> ((fst gs)\<lparr>Space_players := Space_players (fst gs) @ [item]\<rparr>, snd gs)
      | Some l \<Rightarrow> (fst gs, (snd gs)\<lparr>players := Some (l @ [item])\<rparr>))"

definition append_box :: "ref \<Rightarrow> pyglobals \<times> Space \<Rightarrow> pyglobals \<times> Space" where
  "append_box item gs =
     (case boxes (snd gs) of
        None \<Rightarrow> ((fst gs)\<lparr>Space_boxes := Space_boxes (fst gs) @ [item]\<rparr>, snd gs)
      | Some l \<Rightarrow> (fst gs, (snd gs)\<lparr>boxes := Some (l @ [item])\<rparr>))"

definition append_platform :: "ref \<Rightarrow> pyglobals \<times> Space \<Rightarrow> pyglobals \<times> Space" where
  "append_platform item gs =
     (case platforms (snd gs) of
        None \<Rightarrow> ((fst gs)\<lparr>Space_platforms := Space_platforms (fst gs) @ [item]\<rparr>, snd gs)
      | Some l \<Rightarrow> (fst gs, (snd gs)\<lparr>platforms := Some (l @ [item])\<rparr>))"

subsection \<open>Construction\<close>

text \<open>The state of the interpreter after the module is loaded: no object, the class lists as declared.\<close>

definition Object_init :: "int \<Rightarrow> int \<Rightarrow> int \<Rightarrow> int \<Rightarrow> int \<Rightarrow> Object" where
  "Object_init x y w h up =
     \<lparr>rect_x = x, rect_y = y, rect_w = w, rect_h = h, o_upscale = up, speed = None\<rparr>"

definition module_init :: pyglobals where
  "module_init =
     \<lparr>heap = (\<lambda>r. Object_init 0 0 0 0 1), fresh = 0, Object_speed = (0, 0),
      Space_targets = [], Space_players = [], Space_boxes = [], Space_platforms = []\<rparr>"

definition Space_init :: "int \<Rightarrow> int \<Rightarrow> int \<Rightarrow> int \<Rightarrow> Space" where
  "Space_init w h grav up =
     \<lparr>space_w = w * up, space_h = h * up, gravity = grav * up, upscale = up,
      targets = None, targets_engaged = 0, players = None, boxes = None, platforms = None,
      thinkingbox = None, player_on_ground = False, player_in_thinkingbox = False\<rparr>"

text \<open>
  \<^verbatim>\<open>Object(x, y, w, h, upscale)\<close>: the constructor of the rectangle converts the
  four numbers in turn and raises \<^verbatim>\<open>TypeError\<close> when one of them cannot be
  converted.
\<close>

definition Object_new :: "int \<Rightarrow> int \<Rightarrow> int \<Rightarrow> int \<Rightarrow> int \<Rightarrow> error + Object" where
  "Object_new x y w h up =
     (case pg_IntFromObj x of Inl e \<Rightarrow> Inl e | Inr cx \<Rightarrow>
      case pg_IntFromObj y of Inl e \<Rightarrow> Inl e | Inr cy \<Rightarrow>
      case pg_IntFromObj w of Inl e \<Rightarrow> Inl e | Inr cw \<Rightarrow>
      case pg_IntFromObj h of Inl e \<Rightarrow> Inl e | Inr ch \<Rightarrow>
        Inr (Object_init cx cy cw ch up))"

definition add_object ::
  "pyglobals \<Rightarrow> Space \<Rightarrow> int \<Rightarrow> int \<Rightarrow> int \<Rightarrow> int \<Rightarrow> string \<Rightarrow> ref outcome" where
  "add_object g s x y w h type =
     (case Object_new (x * upscale s) (y * upscale s) (w * upscale s) (h * upscale s)
             (upscale s) of
        Inl e \<Rightarrow> Raise e g s
      | Inr ob \<Rightarrow>
         (let item = fresh g;
              g0 = g\<lparr>heap := (heap g)(item := ob), fresh := Suc item\<rparr>;
              gs1 = (if type = ''target'' then append_target item (g0, s) else (g0, s));
              gs2 = (if type = ''player'' then append_player item gs1 else gs1);
              gs3 = (if type = ''box'' then append_box item gs2 else gs2);
              gs4 = (if type = ''platform'' then append_platform item gs3 else gs3);
              s5 = (if type = ''thinkingbox'' then (snd gs4)\<lparr>thinkingbox := Some item\<rparr>
                    else snd gs4)
          in Return item (fst gs4) s5))"

definition reset :: "pyglobals \<Rightarrow> Space \<Rightarrow> unit outcome" where
  "reset g s =
     Return () g (s\<lparr>targets := Some [], targets_engaged := 0, players := Some [],
                   boxes := Some [], platforms := Some [], thinkingbox := None,
                   player_on_ground := False, player_in_thinkingbox := False\<rparr>)"

subsection \<open>Detection: check_collisions\<close>

text \<open>
  \<^verbatim>\<open>check_list\<close>: \<^verbatim>\<open>collidelistall\<close> gives the indices of the rectangles that
  overlap \<^verbatim>\<open>item1\<close>, in list order, and one tuple is appended for each.
\<close>

fun check_list :: "pyglobals \<Rightarrow> ref \<Rightarrow> ref list \<Rightarrow> nat \<Rightarrow> collision list" where
  "check_list g item1 [] ct = []"
| "check_list g item1 (item2 # rect_list) ct =
     (if colliderect (heap g item1) (heap g item2)
      then (item1, Item item2, ct) # check_list g item1 rect_list ct
      else check_list g item1 rect_list ct)"

definition check_borders :: "pyglobals \<Rightarrow> Space \<Rightarrow> ref \<Rightarrow> collision list" where
  "check_borders g s item =
     (if rect_left (heap g item) < 0 \<or> rect_right (heap g item) > space_w s
         \<or> rect_top (heap g item) < 0 \<or> rect_bottom (heap g item) > space_h s
      then [(item, Wall, object_to_border)] else [])"

text \<open>\<^verbatim>\<open>check_sametype\<close>: every object against the objects after it in the list.\<close>

fun check_sametype :: "pyglobals \<Rightarrow> ref list \<Rightarrow> nat \<Rightarrow> collision list" where
  "check_sametype g [] ct = []"
| "check_sametype g (item1 # itemlist) ct =
     check_list g item1 itemlist ct @ check_sametype g itemlist ct"

text \<open>
  The nested function \<^verbatim>\<open>check_playerinthinking\<close> is declared without parameters;
  its body reads \<^verbatim>\<open>player\<close> from the enclosing scope and would set the flag.
\<close>

definition check_playerinthinking :: "pyglobals \<Rightarrow> Space \<Rightarrow> ref \<Rightarrow> ref \<Rightarrow> Space" where
  "check_playerinthinking g s player tb =
     (if rect_left (heap g player) > rect_left (heap g tb)
         \<and> rect_right (heap g player) < rect_right (heap g tb)
         \<and> \<bar>rect_bottom (heap g player) - rect_bottom (heap g tb)\<bar> < 2
         \<and> \<bar>rect_top (heap g player) - rect_top (heap g tb)\<bar> < 2
      then s\<lparr>player_in_thinkingbox := True\<rparr> else s)"

text \<open>
  A call applies a function of \<open>arity\<close> parameters to \<open>nargs\<close> positional
  arguments; Python raises \<^verbatim>\<open>TypeError\<close> when the numbers differ, before the body runs.
\<close>

definition call_arity :: "nat \<Rightarrow> nat \<Rightarrow> Space \<Rightarrow> error + Space" where
  "call_arity arity nargs body = (if nargs = arity then Inr body else Inl TypeError)"

fun check_boxes :: "pyglobals \<Rightarrow> Space \<Rightarrow> ref list \<Rightarrow> collision list" where
  "check_boxes g s [] = []"
| "check_boxes g s (box # bs) =
     check_list g box (targets_of g s) box_to_target
     @ check_list g box (platforms_of g s) object_to_platform
     @ check_borders g s box
     @ check_boxes g s bs"

text \<open>
  The loop over the players. \<^verbatim>\<open>if self.thinkingbox:\<close> is false for \<^verbatim>\<open>None\<close> and
  for a rectangle without area. The call under it passes one argument
  (\<^verbatim>\<open>check_playerinthinking(player)\<close>) to the function of no parameters.
\<close>

fun check_players ::
  "pyglobals \<Rightarrow> Space \<Rightarrow> ref list \<Rightarrow> collision list \<Rightarrow> (collision list) outcome" where
  "check_players g s [] collisions = Return collisions g s"
| "check_players g s (player # ps) collisions =
     (let collisions1 = collisions
            @ check_list g player (platforms_of g s) object_to_platform
            @ check_list g player (boxes_of g s) player_to_box
            @ check_borders g s player
      in case thinkingbox s of
           None \<Rightarrow> check_players g s ps collisions1
         | Some tb \<Rightarrow>
             if rect_bool (heap g tb)
             then (case call_arity 0 1 (check_playerinthinking g s player tb) of
                     Inl e \<Rightarrow> Raise e g s
                   | Inr s1 \<Rightarrow> check_players g s1 ps collisions1)
             else check_players g s ps collisions1)"

definition check_collisions :: "pyglobals \<Rightarrow> Space \<Rightarrow> (collision list) outcome" where
  "check_collisions g s =
     (let collisions = check_boxes g s (boxes_of g s)
            @ check_sametype g (boxes_of g s) box_to_box
      in case check_players g s (players_of g s) collisions of
           Raise e g1 s1 \<Rightarrow> Raise e g1 s1
         | Return collisions1 g1 s1 \<Rightarrow>
             Return (collisions1 @ check_sametype g1 (players_of g1 s1) player_to_player) g1 s1)"

subsection \<open>Resolution: resolve_collisions\<close>

datatype side = SideTop | SideBottom | SideRight | SideLeft

text \<open>
  \<^verbatim>\<open>whatside\<close> reads the edges of both participants; on the string \<^verbatim>\<open>"wall"\<close> the
  attribute access raises. Without a matching test the function falls off its
  end and returns \<^verbatim>\<open>None\<close>.
\<close>

definition whatside :: "pyglobals \<Rightarrow> collision \<Rightarrow> int \<Rightarrow> error + side option" where
  "whatside g collision tolerance =
     (case fst (snd collision) of
        Wall \<Rightarrow> Inl AttributeError
      | Item c1 \<Rightarrow>
          (let c0 = fst collision in
           if \<bar>rect_top (heap g c0) - rect_bottom (heap g c1)\<bar> < tolerance then Inr (Some SideTop)
           else if \<bar>rect_bottom (heap g c0) - rect_top (heap g c1)\<bar> < tolerance then Inr (Some SideBottom)
           else if \<bar>rect_right (heap g c0) - rect_left (heap g c1)\<bar> < tolerance then Inr (Some SideRight)
           else if \<bar>rect_left (heap g c0) - rect_right (heap g c1)\<bar> < tolerance then Inr (Some SideLeft)
           else Inr None))"

text \<open>
  \<^verbatim>\<open>item1 in self.players\<close> compares with \<^verbatim>\<open>==\<close>, which for rectangles is equality
  of the coordinates (the object itself is equal to itself).
\<close>

definition in_players :: "pyglobals \<Rightarrow> Space \<Rightarrow> ref \<Rightarrow> bool" where
  "in_players g s item1 =
     list_ex (\<lambda>p. p = item1 \<or> rect_eq (heap g p) (heap g item1)) (players_of g s)"

text \<open>The block for \<^verbatim>\<open>object_to_platform\<close>; its tests are in the order left, right, top, bottom.\<close>

definition resolve_platform ::
  "pyglobals \<Rightarrow> Space \<Rightarrow> ref \<Rightarrow> ref \<Rightarrow> side option \<Rightarrow> pyglobals \<times> Space" where
  "resolve_platform g s item1 item2 sd =
     (if sd = Some SideLeft then
        (let g1 = store_speed0 g item1 0
         in (upd item1 (set_left (rect_right (heap g1 item2))) g1, s))
      else if sd = Some SideRight then
        (let g1 = store_speed0 g item1 0
         in (upd item1 (set_right (rect_left (heap g1 item2))) g1, s))
      else if sd = Some SideTop then
        (let g1 = assign_speed g item1 (fst (get_speed g item1), snd (get_speed g item1) * (- 1))
         in (upd item1 (set_top (rect_bottom (heap g1 item2))) g1, s))
      else if sd = Some SideBottom then
        (let g1 = assign_speed g item1 (0, 0);
             g2 = upd item1 (set_bottom (rect_top (heap g1 item2))) g1
         in (g2, if in_players g2 s item1 then s\<lparr>player_on_ground := True\<rparr> else s))
      else (g, s))"

text \<open>The block for \<^verbatim>\<open>player_to_box\<close>; its tests are in the order top, bottom, left, right.\<close>

definition resolve_player_box ::
  "pyglobals \<Rightarrow> Space \<Rightarrow> ref \<Rightarrow> ref \<Rightarrow> side option \<Rightarrow> pyglobals \<times> Space" where
  "resolve_player_box g s item1 item2 sd =
     (if sd = Some SideTop then
        (let g1 = assign_speed g item2 (0, 0)
         in (upd item2 (set_bottom (rect_top (heap g1 item1))) g1, s))
      else if sd = Some SideBottom then
        (let g1 = assign_speed g item1 (0, 0)
         in (upd item1 (set_bottom (rect_top (heap g1 item2))) g1, s\<lparr>player_on_ground := True\<rparr>))
      else if sd = Some SideLeft then
        (let g1 = assign_speed g item2 (0, snd (get_speed g item2))
         in (upd item2 (set_right (rect_left (heap g1 item1))) g1, s))
      else if sd = Some SideRight then
        (let g1 = assign_speed g item2 (0, snd (get_speed g item2))
         in (upd item2 (set_left (rect_right (heap g1 item1))) g1, s))
      else (g, s))"

text \<open>
  The block for \<^verbatim>\<open>box_to_box\<close>. \<^verbatim>\<open>alpha_box\<close> starts as \<^verbatim>\<open>item1\<close> and becomes
  \<^verbatim>\<open>item2\<close> when \<^verbatim>\<open>item1\<close> is strictly farther from \<^verbatim>\<open>self.players[0]\<close>.
\<close>

definition alpha_box :: "pyglobals \<Rightarrow> ref \<Rightarrow> ref \<Rightarrow> ref \<Rightarrow> ref" where
  "alpha_box g player0 item1 item2 =
     (let item1_dist = \<bar>rect_x (heap g player0) - rect_x (heap g item1)\<bar>;
          item2_dist = \<bar>rect_x (heap g player0) - rect_x (heap g item2)\<bar>
      in if item1_dist > item2_dist then item2 else item1)"

definition resolve_box_box ::
  "pyglobals \<Rightarrow> Space \<Rightarrow> ref \<Rightarrow> ref \<Rightarrow> ref \<Rightarrow> side option \<Rightarrow> pyglobals \<times> Space" where
  "resolve_box_box g s alpha item1 item2 sd =
     (if sd = Some SideTop then
        (let g1 = assign_speed g item2 (0, 0)
         in (upd item2 (set_bottom (rect_top (heap g1 item1))) g1, s))
      else if sd = Some SideBottom then
        (let g1 = assign_speed g item1 (0, 0)
         in (upd item1 (set_bottom (rect_top (heap g1 item2))) g1, s))
      else if sd = Some SideLeft then
        (let g1 = store_speed0 g item1 0;
             g2 = store_speed0 g1 item2 0
         in if alpha = item1
            then (upd item2 (set_right (rect_left (heap g2 item1))) g2, s)
            else (upd item1 (set_left (rect_right (heap g2 item2))) g2, s))
      else if sd = Some SideRight then
        (let g1 = store_speed0 g item1 0;
             g2 = store_speed0 g1 item2 0
         in if alpha = item1
            then (upd item2 (set_left (rect_right (heap g2 item1))) g2, s)
            else (upd item1 (set_right (rect_left (heap g2 item2))) g2, s))
      else (g, s))"

text \<open>
  The block for \<^verbatim>\<open>object_to_border\<close>: four tests in sequence, each on the
  rectangle as the tests before it have left it. \<^verbatim>\<open>self.w\<close> and \<^verbatim>\<open>self.h\<close> are
  Python integers; assigning them converts them, after the velocity was
  changed.
\<close>

definition border_left :: "pyglobals \<Rightarrow> ref \<Rightarrow> pyglobals" where
  "border_left g item1 =
     (if rect_left (heap g item1) < 0
      then upd item1 (set_left 0) (store_speed0 g item1 0) else g)"

definition border_right :: "pyglobals \<Rightarrow> Space \<Rightarrow> ref \<Rightarrow> error \<times> pyglobals + pyglobals" where
  "border_right g s item1 =
     (if rect_right (heap g item1) > space_w s
      then (case pg_IntFromObj (space_w s) of
              Inl e \<Rightarrow> Inl (e, store_speed0 g item1 0)
            | Inr v \<Rightarrow> Inr (upd item1 (set_right v) (store_speed0 g item1 0)))
      else Inr g)"

definition border_top :: "pyglobals \<Rightarrow> ref \<Rightarrow> pyglobals" where
  "border_top g item1 =
     (if rect_top (heap g item1) < 0
      then upd item1 (set_top 0) (store_speed1 g item1 (snd (get_speed g item1) * (- 1)))
      else g)"

definition border_bottom :: "pyglobals \<Rightarrow> Space \<Rightarrow> ref \<Rightarrow> error \<times> pyglobals + pyglobals" where
  "border_bottom g s item1 =
     (if rect_bottom (heap g item1) > space_h s
      then (case pg_IntFromObj (space_h s) of
              Inl e \<Rightarrow> Inl (e, store_speed1 g item1 (snd (get_speed g item1) * 0))
            | Inr v \<Rightarrow>
                Inr (upd item1 (set_bottom v)
                       (store_speed1 g item1 (snd (get_speed g item1) * 0))))
      else Inr g)"

definition resolve_border :: "pyglobals \<Rightarrow> Space \<Rightarrow> ref \<Rightarrow> unit outcome" where
  "resolve_border g s item1 =
     (case border_right (border_left g item1) s item1 of
        Inl (e, g2) \<Rightarrow> Raise e g2 s
      | Inr g2 \<Rightarrow>
          (case border_bottom (border_top g2 item1) s item1 of
             Inl (e, g4) \<Rightarrow> Raise e g4 s
           | Inr g4 \<Rightarrow> Return () g4 s))"

text \<open>
  The body of the loop of \<^verbatim>\<open>resolve_collisions\<close> for one tuple. The tests on
  \<^verbatim>\<open>collision_type\<close> compare one unchanged number with six different constants,
  so at most one block runs.
\<close>

definition resolve_collision :: "pyglobals \<Rightarrow> Space \<Rightarrow> collision \<Rightarrow> unit outcome" where
  "resolve_collision g s collision =
     (let item1 = fst collision;
          item2 = fst (snd collision);
          collision_type = snd (snd collision)
      in if collision_type = box_to_target then
           Return () g (s\<lparr>targets_engaged := targets_engaged s + 1\<rparr>)
         else if collision_type = object_to_platform then
           (case whatside g collision 31 of
              Inl e \<Rightarrow> Raise e g s
            | Inr sd \<Rightarrow>
                (case item2 of
                   Wall \<Rightarrow> Raise AttributeError g s
                 | Item i2 \<Rightarrow>
                     (let gs = resolve_platform g s item1 i2 sd in Return () (fst gs) (snd gs))))
         else if collision_type = player_to_box then
           (case whatside g collision 31 of
              Inl e \<Rightarrow> Raise e g s
            | Inr sd \<Rightarrow>
                (case item2 of
                   Wall \<Rightarrow> Raise AttributeError g s
                 | Item i2 \<Rightarrow>
                     (let gs = resolve_player_box g s item1 i2 sd in Return () (fst gs) (snd gs))))
         else if collision_type = box_to_box then
           (case players_of g s of
              [] \<Rightarrow> Raise IndexError g s
            | player0 # _ \<Rightarrow>
                (case item2 of
                   Wall \<Rightarrow> Raise AttributeError g s
                 | Item i2 \<Rightarrow>
                     (case whatside g collision 31 of
                        Inl e \<Rightarrow> Raise e g s
                      | Inr sd \<Rightarrow>
                          (let gs = resolve_box_box g s (alpha_box g player0 item1 i2) item1 i2 sd
                           in Return () (fst gs) (snd gs)))))
         else if collision_type = player_to_player then Return () g s
         else if collision_type = object_to_border then resolve_border g s item1
         else Return () g s)"

fun resolve_collisions :: "pyglobals \<Rightarrow> Space \<Rightarrow> collision list \<Rightarrow> unit outcome" where
  "resolve_collisions g s [] = Return () g s"
| "resolve_collisions g s (collision # collisions) =
     (case resolve_collision g s collision of
        Raise e g1 s1 \<Rightarrow> Raise e g1 s1
      | Return _ g1 s1 \<Rightarrow> resolve_collisions g1 s1 collisions)"

subsection \<open>The tick: step\<close>

text \<open>Python's \<^verbatim>\<open>round\<close> of a number to an integer: to the nearest, a tie to the even one.\<close>

definition py_round :: "rat \<Rightarrow> int" where
  "py_round q =
     (let f = \<lfloor>q\<rfloor>; d = q - of_int f
      in if d < 1 / 2 then f
         else if d > 1 / 2 then f + 1
         else if even f then f else f + 1)"

text \<open>
  The settle loop runs \<^verbatim>\<open>len(self.boxes)\<close> times, the number being taken once
  before the first round.
\<close>

fun settle :: "nat \<Rightarrow> pyglobals \<Rightarrow> Space \<Rightarrow> unit outcome" where
  "settle 0 g s = Return () g s"
| "settle (Suc n) g s =
     (case check_collisions g (s\<lparr>targets_engaged := 0\<rparr>) of
        Raise e g1 s1 \<Rightarrow> Raise e g1 s1
      | Return collisions g1 s1 \<Rightarrow>
          (case resolve_collisions g1 s1 collisions of
             Raise e g2 s2 \<Rightarrow> Raise e g2 s2
           | Return _ g2 s2 \<Rightarrow> settle n g2 s2))"

text \<open>
  The division \<^verbatim>\<open>a / b\<close> of two Python integers: \<^verbatim>\<open>ZeroDivisionError\<close> for a zero
  divisor, \<^verbatim>\<open>OverflowError\<close> when the quotient rounds to a float beyond the
  largest one, the float otherwise.
\<close>

definition truediv :: "int \<Rightarrow> int \<Rightarrow> error + rat" where
  "truediv a b =
     (if b = 0 then Inl ZeroDivisionError
      else if \<bar>of_int a / of_int b :: rat\<bar> \<ge> 2 ^ 1024 - 2 ^ 970 then Inl OverflowError
      else Inr (of_int a / of_int b))"

text \<open>
  The gravity loop: \<^verbatim>\<open>object.speed[1] += (self.gravity / fps)\<close> for every
  dynamic object.
\<close>

fun apply_gravity :: "pyglobals \<Rightarrow> Space \<Rightarrow> int \<Rightarrow> ref list \<Rightarrow> unit outcome" where
  "apply_gravity g s fps [] = Return () g s"
| "apply_gravity g s fps (ob # dynamic_objects) =
     (case truediv (gravity s) fps of
        Inl e \<Rightarrow> Raise e g s
      | Inr a \<Rightarrow>
          apply_gravity (store_speed1 g ob (snd (get_speed g ob) + a)) s fps dynamic_objects)"

text \<open>
  The integration loop: both coordinates are computed, then \<^verbatim>\<open>topleft\<close> is
  assigned, which converts the two numbers and raises \<^verbatim>\<open>TypeError\<close> when one of
  them cannot be converted.
\<close>

fun move_objects :: "pyglobals \<Rightarrow> Space \<Rightarrow> int \<Rightarrow> ref list \<Rightarrow> unit outcome" where
  "move_objects g s fps [] = Return () g s"
| "move_objects g s fps (ob # dynamic_objects) =
     (case truediv 1 fps of
        Inl e \<Rightarrow> Raise e g s
      | Inr r \<Rightarrow>
          (let new_x = py_round (of_int (rect_x (heap g ob)) + fst (get_speed g ob) * r);
               new_y = py_round (of_int (rect_y (heap g ob)) + snd (get_speed g ob) * r)
           in case pg_IntFromObj new_x of
                Inl e \<Rightarrow> Raise e g s
              | Inr cx \<Rightarrow>
                  (case pg_IntFromObj new_y of
                     Inl e \<Rightarrow> Raise e g s
                   | Inr cy \<Rightarrow>
                       move_objects (upd ob (set_topleft (cx, cy)) g) s fps dynamic_objects)))"

text \<open>The two loops over \<^verbatim>\<open>dynamic_objects\<close>, one after the other.\<close>

definition gravity_then_move :: "pyglobals \<Rightarrow> Space \<Rightarrow> int \<Rightarrow> ref list \<Rightarrow> unit outcome" where
  "gravity_then_move g s fps dynamic_objects =
     (case apply_gravity g s fps dynamic_objects of
        Raise e g2 s2 \<Rightarrow> Raise e g2 s2
      | Return _ g2 s2 \<Rightarrow> move_objects g2 s2 fps dynamic_objects)"

definition step :: "pyglobals \<Rightarrow> Space \<Rightarrow> int \<Rightarrow> unit outcome" where
  "step g s fps =
     (let s0 = s\<lparr>player_in_thinkingbox := False\<rparr>
      in case settle (length (boxes_of g s0)) g s0 of
           Raise e g1 s1 \<Rightarrow> Raise e g1 s1
         | Return _ g1 s1 \<Rightarrow>
             gravity_then_move g1 s1 fps (players_of g1 s1 @ boxes_of g1 s1))"

subsection \<open>Example worlds\<close>

text \<open>Calling \<^verbatim>\<open>add_object\<close> on a world and keeping the state it leaves.\<close>

definition after_add ::
  "pyglobals \<times> Space \<Rightarrow> int \<Rightarrow> int \<Rightarrow> int \<Rightarrow> int \<Rightarrow> string \<Rightarrow> pyglobals \<times> Space" where
  "after_add gs x y w h type =
     (globals_after (add_object (fst gs) (snd gs) x y w h type),
      space_after (add_object (fst gs) (snd gs) x y w h type))"

text \<open>\<^verbatim>\<open>Space(20, 10, 1)\<close> with two players (references 0 and 1) and no box.\<close>

definition world_two_players :: "pyglobals \<times> Space" where
  "world_two_players =
     after_add (after_add (module_init, Space_init 20 10 1 100) 1 1 1 1 ''player'')
       5 1 1 1 ''player''"

text \<open>Two worlds created one after the other, before any object is added.\<close>

definition world_a :: Space where
  "world_a = Space_init 20 10 1 100"

definition world_b :: Space where
  "world_b = Space_init 30 15 2 100"

text \<open>
  A world with a thinking-box (reference 0) at \<^verbatim>\<open>(2, 2, 3, 2)\<close> and a player
  (reference 1) at \<^verbatim>\<open>(3, 2, 1, 2)\<close>, standing inside it.
\<close>

definition world_thinking :: "pyglobals \<times> Space" where
  "world_thinking =
     after_add (after_add (module_init, Space_init 20 10 1 100) 2 2 3 2 ''thinkingbox'')
       3 2 1 2 ''player''"

text \<open>
  \<^verbatim>\<open>Space(200, 100, 1, upscale=10)\<close> with a player (reference 0) at the left
  border and two overlapping boxes: reference 1 spans 1000..1100 and reference 2
  spans 910..1010 horizontally.
\<close>

definition world_two_boxes :: "pyglobals \<times> Space" where
  "world_two_boxes =
     after_add (after_add (after_add (module_init, Space_init 200 100 1 10)
       0 0 10 10 ''player'') 100 0 10 10 ''box'') 91 0 10 10 ''box''"

text \<open>
  A world with a platform (reference 0) placed left of the border and a box
  (reference 1) inside, touching nothing.
\<close>

definition world_platform_outside :: "pyglobals \<times> Space" where
  "world_platform_outside =
     after_add (after_add (module_init, Space_init 20 10 1 100) (- 5) 9 3 1 ''platform'')
       5 5 1 1 ''box''"

text \<open>A world with a platform (reference 0) and a player (reference 1) deep inside it.\<close>

definition world_deep_overlap :: "pyglobals \<times> Space" where
  "world_deep_overlap =
     after_add (after_add (module_init, Space_init 20 10 1 100) 0 0 10 10 ''platform'')
       4 4 1 1 ''player''"

text \<open>A world with one box (reference 0) at \<^verbatim>\<open>(-1, 5, 1, 1)\<close>, left of the border.\<close>

definition world_box_outside :: "pyglobals \<times> Space" where
  "world_box_outside =
     after_add (module_init, Space_init 20 10 1 100) (- 1) 5 1 1 ''box''"

text \<open>
  \<^verbatim>\<open>Space(200, 100, 1, upscale=10)\<close> with a box (reference 0) at the left border,
  spanning 0..100, and a player (reference 1) spanning 90..190, pushing into it
  from the right.
\<close>

definition world_box_pushed_out :: "pyglobals \<times> Space" where
  "world_box_pushed_out =
     after_add (after_add (module_init, Space_init 200 100 1 10) 0 0 10 10 ''box'')
       9 0 10 10 ''player''"

text \<open>A world 2000 units wide with one box (reference 0) that is 3000 units wide.\<close>

definition world_wide_box :: "pyglobals \<times> Space" where
  "world_wide_box =
     after_add (module_init, Space_init 20 10 1 100) (- 1) 5 30 1 ''box''"

text \<open>The world with the thinking-box and the player inside it, and a box (reference 2).\<close>

definition world_thinking_box :: "pyglobals \<times> Space" where
  "world_thinking_box = after_add world_thinking 10 5 1 1 ''box''"

text \<open>
  \<^verbatim>\<open>Space(2000, 1000, 1, upscale=1)\<close> with a player (reference 0) at 1000 and two
  overlapping boxes at 955 (reference 1) and 1045 (reference 2), both 45 units
  from the player.
\<close>

definition world_boxes_tie :: "pyglobals \<times> Space" where
  "world_boxes_tie =
     after_add (after_add (after_add (module_init, Space_init 2000 1000 1 1)
       1000 0 100 100 ''player'') 955 0 100 100 ''box'') 1045 0 100 100 ''box''"

section \<open>Properties\<close>

subsection \<open>Evaluation and frame lemmas\<close>

lemmas ctype_defs =
  box_to_target_def object_to_platform_def player_to_box_def box_to_box_def
  player_to_player_def object_to_border_def

lemmas rect_defs =
  rect_left_def rect_top_def rect_right_def rect_bottom_def set_left_def set_top_def
  set_right_def set_bottom_def set_topleft_def colliderect_def rect_bool_def rect_eq_def
  wrap_int_def

lemmas attr_defs =
  upd_def get_speed_def store_speed0_def store_speed1_def assign_speed_def
  targets_of_def players_of_def boxes_of_def platforms_of_def
  append_target_def append_player_def append_box_def append_platform_def

lemmas build_defs =
  after_add_def add_object_def Object_new_def pg_IntFromObj_def wrap_int_def
  Space_init_def module_init_def Object_init_def

lemma floor_numeral_divide:
  "\<lfloor>(numeral a :: rat) / numeral b\<rfloor> = numeral a div numeral b"
  using floor_divide_of_int_eq [of "numeral a" "numeral b", where ?'a = rat] by simp

lemma truediv_small:
  "b \<noteq> 0 \<Longrightarrow> \<bar>a\<bar> < 2 ^ 1000 \<Longrightarrow> truediv a b = Inr (of_int a / of_int b)"
proof -
  assume b: "b \<noteq> 0" and a: "\<bar>a\<bar> < 2 ^ 1000"
  have "\<bar>of_int a / of_int b :: rat\<bar> \<le> \<bar>of_int a\<bar>"
  proof -
    have "1 \<le> \<bar>of_int b :: rat\<bar>" using b by (simp flip: of_int_abs)
    then have "\<bar>of_int a :: rat\<bar> / \<bar>of_int b\<bar> \<le> \<bar>of_int a\<bar> / 1"
      by (intro divide_left_mono) auto
    then show ?thesis by simp
  qed
  moreover have "\<bar>of_int a :: rat\<bar> < 2 ^ 1000"
    using a by (metis of_int_abs of_int_less_numeral_power_cancel_iff)
  moreover have "(2::rat) ^ 1000 < 2 ^ 1024 - 2 ^ 970"
    by simp
  ultimately have "\<not> \<bar>of_int a / of_int b :: rat\<bar> \<ge> 2 ^ 1024 - 2 ^ 970"
    by linarith
  then show ?thesis using b by (simp add: truediv_def)
qed

lemma truediv_zero: "truediv a 0 = Inl ZeroDivisionError"
  by (simp add: truediv_def)

lemma truediv_nonzero: "b \<noteq> 0 \<Longrightarrow> truediv a b \<noteq> Inl ZeroDivisionError"
  by (simp add: truediv_def)

lemma pg_IntFromObj_error: "pg_IntFromObj v = Inl e \<Longrightarrow> e = TypeError"
  by (simp add: pg_IntFromObj_def split: if_splits)

lemma wrap_int_id: "c_int_range v \<Longrightarrow> wrap_int v = v"
  by (simp add: c_int_range_def wrap_int_def)

lemma wrap_int_range: "c_int_range (wrap_int v)"
proof -
  have "0 \<le> (v + 2147483648) mod 4294967296" "(v + 2147483648) mod 4294967296 < 4294967296"
    by simp_all
  then show ?thesis
    unfolding c_int_range_def wrap_int_def by linarith
qed

lemma wrap_int_sub_add: "wrap_int (wrap_int (a - b) + b) = wrap_int a"
proof -
  have "((a - b + 2147483648) mod 4294967296 - 2147483648 + b + 2147483648) mod 4294967296
        = ((a - b + 2147483648) mod 4294967296 + b) mod 4294967296"
    by simp
  also have "\<dots> = (a - b + 2147483648 + b) mod 4294967296"
    by (rule mod_add_left_eq)
  also have "\<dots> = (a + 2147483648) mod 4294967296"
    by simp
  finally show ?thesis
    by (simp add: wrap_int_def)
qed

lemma pg_IntFromObj_id: "c_int_range v \<Longrightarrow> pg_IntFromObj v = Inr v"
  by (simp add: pg_IntFromObj_def wrap_int_id) (simp add: c_int_range_def)

lemma Object_new_id:
  "c_int_range x \<Longrightarrow> c_int_range y \<Longrightarrow> c_int_range w \<Longrightarrow> c_int_range h
   \<Longrightarrow> Object_new x y w h up = Inr (Object_init x y w h up)"
  by (simp add: Object_new_def pg_IntFromObj_id)

lemma Object_new_error: "Object_new x y w h up = Inl e \<Longrightarrow> e = TypeError"
  by (auto simp add: Object_new_def dest: pg_IntFromObj_error split: sum.splits)

lemmas ev_defs = build_defs attr_defs rect_defs check_collisions_def check_borders_def
  ctype_defs Let_def

subsection \<open>Gravity and the shared velocity list\<close>

text \<open>
  Claim C2: one call of \<^verbatim>\<open>step(fps)\<close> without any contact raises the vertical
  velocity of each player and box by \<open>gravity / fps\<close>, however many other
  dynamic objects there are.

  The code does not do this. In the world of two players that never had their
  \<^verbatim>\<open>speed\<close> assigned, both read the list of the class; the gravity loop adds
  \<open>gravity / fps = 25\<close> to that one list once per player, and after the step each
  player's vertical velocity is 50.
\<close>

theorem C2_gravity_added_once_per_object_to_shared_list:
  "\<not> raises (step (fst world_two_players) (snd world_two_players) 4)
   \<and> snd (get_speed (fst world_two_players) 0) = 0
   \<and> snd (get_speed (fst world_two_players) 1) = 0
   \<and> (of_int (gravity (snd world_two_players)) / of_int 4 :: rat) = 25
   \<and> snd (get_speed (globals_after (step (fst world_two_players) (snd world_two_players) 4)) 0) = 50
   \<and> snd (get_speed (globals_after (step (fst world_two_players) (snd world_two_players) 4)) 1) = 50"
  by (simp add: world_two_players_def build_defs attr_defs rect_defs step_def
      gravity_then_move_def py_round_def truediv_small Let_def)

subsection \<open>Worlds and the shared object lists\<close>

text \<open>
  Claim C3: the object lists belong to one world; \<^verbatim>\<open>add_object\<close> on a world
  leaves the lists of every other world unchanged.

  The code does not do this. Two worlds that were never reset both read the
  lists of the class: after a box is added to \<open>world_a\<close>, the list of boxes of
  \<open>world_b\<close>, empty before, holds that box. Only after \<^verbatim>\<open>reset\<close>, which binds
  lists on the instance, does a world have lists of its own.
\<close>

theorem C3_add_object_changes_other_world:
  "boxes_of module_init world_b = []
   \<and> \<not> raises (add_object module_init world_a 0 0 1 1 ''box'')
   \<and> boxes_of (globals_after (add_object module_init world_a 0 0 1 1 ''box'')) world_b = [0]
   \<and> boxes_of (globals_after (add_object module_init
                  (space_after (reset module_init world_a)) 0 0 1 1 ''box''))
        (space_after (reset module_init world_b)) = []"
  by (simp add: world_a_def world_b_def build_defs attr_defs reset_def Let_def)

subsection \<open>Detection with a thinking-box\<close>

text \<open>
  Claim C7: with a thinking-box present, detection sets the flag
  \<^verbatim>\<open>player_in_thinkingbox\<close> exactly when a player is strictly inside it
  horizontally and within 2 units of its top and bottom, and completes without
  an error.

  The code does not do this. The test is written in the body of
  \<^verbatim>\<open>check_playerinthinking\<close>, which holds for the player of \<open>world_thinking\<close>, but
  the call passes an argument to a function without parameters: detection
  raises \<^verbatim>\<open>TypeError\<close> and the flag stays false.
\<close>

theorem C7_detection_raises_with_thinkingbox:
  "thinkingbox (snd world_thinking) = Some 0
   \<and> players_of (fst world_thinking) (snd world_thinking) = [1]
   \<and> player_in_thinkingbox (check_playerinthinking (fst world_thinking) (snd world_thinking) 1 0)
   \<and> check_collisions (fst world_thinking) (snd world_thinking)
       = Raise TypeError (fst world_thinking) (snd world_thinking)
   \<and> \<not> player_in_thinkingbox (snd world_thinking)"
  by (simp add: world_thinking_def build_defs attr_defs rect_defs check_collisions_def
      check_playerinthinking_def check_borders_def call_arity_def ctype_defs Let_def)

subsection \<open>Detection is read-only\<close>

lemma check_players_frame:
  "globals_after (check_players g s ps cs) = g \<and> space_after (check_players g s ps cs) = s"
  by (induction ps arbitrary: cs) (simp_all add: call_arity_def Let_def split: option.split)

lemma check_collisions_frame:
  "globals_after (check_collisions g s) = g \<and> space_after (check_collisions g s) = s"
proof -
  let ?r = "check_players g s (players_of g s)
              (check_boxes g s (boxes_of g s) @ check_sametype g (boxes_of g s) box_to_box)"
  have "globals_after ?r = g \<and> space_after ?r = s"
    by (rule check_players_frame)
  then show ?thesis
    by (cases ?r) (simp_all add: check_collisions_def Let_def)
qed

text \<open>
  Claim C8: \<^verbatim>\<open>check_collisions\<close> never mutates an object. Whether it returns the
  list of collisions or raises, the heap and the velocity list of the class are
  the ones it started from, so every object has the position, the size and the
  velocity it had before.
\<close>

theorem check_collisions_mutates_no_object:
  "globals_after (check_collisions g s) = g
   \<and> (\<forall>r. rect_x (heap (globals_after (check_collisions g s)) r) = rect_x (heap g r)
          \<and> rect_y (heap (globals_after (check_collisions g s)) r) = rect_y (heap g r)
          \<and> rect_w (heap (globals_after (check_collisions g s)) r) = rect_w (heap g r)
          \<and> rect_h (heap (globals_after (check_collisions g s)) r) = rect_h (heap g r)
          \<and> get_speed (globals_after (check_collisions g s)) r = get_speed g r)"
  by (simp add: check_collisions_frame)

subsection \<open>The gravity and integration loops\<close>

lemma apply_gravity_space: "space_after (apply_gravity g s fps obs) = s"
  by (induction obs arbitrary: g) (simp_all split: sum.split)

lemma move_objects_space: "space_after (move_objects g s fps obs) = s"
  by (induction obs arbitrary: g) (simp_all add: Let_def split: sum.split)

lemma apply_gravity_no_zero_division:
  "fps \<noteq> 0 \<Longrightarrow> error_of (apply_gravity g s fps obs) \<noteq> Some ZeroDivisionError"
  by (induction obs arbitrary: g) (auto simp add: truediv_nonzero split: sum.split)

lemma move_objects_no_zero_division:
  "fps \<noteq> 0 \<Longrightarrow> error_of (move_objects g s fps obs) \<noteq> Some ZeroDivisionError"
  by (induction obs arbitrary: g)
    (auto simp add: truediv_nonzero Let_def dest: pg_IntFromObj_error split: sum.split)

lemma gravity_then_move_space: "space_after (gravity_then_move g s fps obs) = s"
proof (cases "apply_gravity g s fps obs")
  case (Return v g2 s2)
  then have "s2 = s" using apply_gravity_space [of g s fps obs] by simp
  with Return show ?thesis by (simp add: gravity_then_move_def move_objects_space)
next
  case (Raise e g2 s2)
  then have "s2 = s" using apply_gravity_space [of g s fps obs] by simp
  with Raise show ?thesis by (simp add: gravity_then_move_def)
qed

lemma gravity_then_move_no_zero_division:
  "fps \<noteq> 0 \<Longrightarrow> error_of (gravity_then_move g s fps obs) \<noteq> Some ZeroDivisionError"
proof (cases "apply_gravity g s fps obs")
  case (Return v g2 s2)
  assume "fps \<noteq> 0"
  with Return show ?thesis by (simp add: gravity_then_move_def move_objects_no_zero_division)
next
  case (Raise e g2 s2)
  assume "fps \<noteq> 0"
  with Raise show ?thesis
    using apply_gravity_no_zero_division [of fps g s obs] by (simp add: gravity_then_move_def)
qed

lemma gravity_then_move_zero:
  "gravity_then_move g s 0 obs = (if obs = [] then Return () g s else Raise ZeroDivisionError g s)"
  by (cases obs) (simp_all add: gravity_then_move_def truediv_zero)

lemma step_no_boxes_eq:
  assumes "boxes_of g s = []"
  shows "step g s fps
           = gravity_then_move g (s\<lparr>player_in_thinkingbox := False\<rparr>) fps (players_of g s)"
proof -
  have b: "boxes_of g (s\<lparr>player_in_thinkingbox := False\<rparr>) = []"
    using assms by (simp add: boxes_of_def)
  have p: "players_of g (s\<lparr>player_in_thinkingbox := False\<rparr>) = players_of g s"
    by (simp add: players_of_def)
  show ?thesis
    by (simp add: step_def Let_def b p)
qed

subsection \<open>A tick of a world without boxes\<close>

text \<open>
  Claim C10: in a world without boxes \<^verbatim>\<open>step\<close> runs no settle round, so nothing
  is detected or resolved in that tick: the step is the reset of the
  thinking-box flag followed by the gravity loop and the integration loop over
  the players. The counter \<^verbatim>\<open>targets_engaged\<close> and the flag \<^verbatim>\<open>player_on_ground\<close>
  keep their values, whether the two loops return or raise.
\<close>

theorem step_without_boxes:
  assumes "boxes_of g s = []"
  shows "step g s fps
           = gravity_then_move g (s\<lparr>player_in_thinkingbox := False\<rparr>) fps (players_of g s)
       \<and> space_after (step g s fps) = s\<lparr>player_in_thinkingbox := False\<rparr>
       \<and> targets_engaged (space_after (step g s fps)) = targets_engaged s
       \<and> player_on_ground (space_after (step g s fps)) = player_on_ground s"
  using assms by (simp add: step_no_boxes_eq gravity_then_move_space)

text \<open>
  In \<open>world_deep_overlap\<close> the player overlaps the platform and detection would
  report it, but the step only lets the player fall: its vertical velocity
  becomes 25 and it moves from 400 to 406.
\<close>

theorem step_without_boxes_witness:
  "boxes_of (fst world_deep_overlap) (snd world_deep_overlap) = []
   \<and> check_collisions (fst world_deep_overlap) (snd world_deep_overlap)
       = Return [(1, Item 0, object_to_platform)] (fst world_deep_overlap) (snd world_deep_overlap)
   \<and> step (fst world_deep_overlap) (snd world_deep_overlap) 4
       = gravity_then_move (fst world_deep_overlap)
           ((snd world_deep_overlap)\<lparr>player_in_thinkingbox := False\<rparr>) 4 [1]
   \<and> \<not> player_on_ground (space_after (step (fst world_deep_overlap) (snd world_deep_overlap) 4))
   \<and> \<not> raises (step (fst world_deep_overlap) (snd world_deep_overlap) 4)
   \<and> rect_y (heap (fst world_deep_overlap) 1) = 400
   \<and> get_speed (globals_after (step (fst world_deep_overlap) (snd world_deep_overlap) 4)) 1
       = (0, 25)
   \<and> rect_y (heap (globals_after (step (fst world_deep_overlap) (snd world_deep_overlap) 4)) 1)
       = 406"
proof -
  have v: "\<not> raises (step (fst world_deep_overlap) (snd world_deep_overlap) 4)
   \<and> rect_y (heap (fst world_deep_overlap) 1) = 400
   \<and> get_speed (globals_after (step (fst world_deep_overlap) (snd world_deep_overlap) 4)) 1
       = (0, 25)
   \<and> rect_y (heap (globals_after (step (fst world_deep_overlap) (snd world_deep_overlap) 4)) 1)
       = 406"
    by (simp add: world_deep_overlap_def build_defs attr_defs rect_defs step_def
        gravity_then_move_def py_round_def floor_numeral_divide truediv_small Let_def)
  have b: "boxes_of (fst world_deep_overlap) (snd world_deep_overlap) = []"
    by (simp add: world_deep_overlap_def build_defs attr_defs Let_def)
  have p: "players_of (fst world_deep_overlap) (snd world_deep_overlap) = [1]"
    by (simp add: world_deep_overlap_def build_defs attr_defs Let_def)
  have g: "\<not> player_on_ground (snd world_deep_overlap)"
    by (simp add: world_deep_overlap_def build_defs attr_defs Let_def)
  have c: "check_collisions (fst world_deep_overlap) (snd world_deep_overlap)
       = Return [(1, Item 0, object_to_platform)] (fst world_deep_overlap) (snd world_deep_overlap)"
    by (simp add: world_deep_overlap_def build_defs attr_defs rect_defs check_collisions_def
        check_borders_def ctype_defs Let_def)
  note t = step_without_boxes [OF b, of 4]
  from t have e: "step (fst world_deep_overlap) (snd world_deep_overlap) 4
       = gravity_then_move (fst world_deep_overlap)
           ((snd world_deep_overlap)\<lparr>player_in_thinkingbox := False\<rparr>) 4 [1]"
    unfolding p by (rule conjunct1)
  from t g have pg:
    "\<not> player_on_ground (space_after (step (fst world_deep_overlap) (snd world_deep_overlap) 4))"
    by blast
  from b c e pg v show ?thesis by blast
qed

subsection \<open>The frame rate is not checked\<close>

text \<open>Detection and resolution divide nothing: a settle round never raises \<^verbatim>\<open>ZeroDivisionError\<close>.\<close>

lemma check_players_error:
  "error_of (check_players g s ps cs) \<noteq> Some ZeroDivisionError"
  by (induction ps arbitrary: cs) (simp_all add: call_arity_def Let_def split: option.split)

lemma check_collisions_error:
  "error_of (check_collisions g s) \<noteq> Some ZeroDivisionError"
proof -
  let ?r = "check_players g s (players_of g s)
              (check_boxes g s (boxes_of g s) @ check_sametype g (boxes_of g s) box_to_box)"
  have "error_of ?r \<noteq> Some ZeroDivisionError"
    by (rule check_players_error)
  then show ?thesis
    by (cases ?r) (simp_all add: check_collisions_def Let_def)
qed

lemma resolve_border_error:
  "error_of (resolve_border g s item1) \<noteq> Some ZeroDivisionError"
  by (auto simp add: resolve_border_def border_right_def border_bottom_def
      dest: pg_IntFromObj_error split: sum.splits if_splits prod.splits)

lemma whatside_error: "whatside g c tol = Inl e \<Longrightarrow> e = AttributeError"
  by (auto simp add: whatside_def Let_def split: participant.splits if_splits)

lemma resolve_collision_error:
  "error_of (resolve_collision g s c) \<noteq> Some ZeroDivisionError"
  by (auto simp add: resolve_collision_def resolve_border_error Let_def
      dest: whatside_error split: sum.splits participant.splits list.splits)

lemma resolve_collisions_error:
  "error_of (resolve_collisions g s cs) \<noteq> Some ZeroDivisionError"
proof (induction cs arbitrary: g s)
  case Nil
  show ?case by simp
next
  case (Cons c cs)
  show ?case
  proof (cases "resolve_collision g s c")
    case (Return v g1 s1)
    with Cons show ?thesis by simp
  next
    case (Raise e g1 s1)
    with resolve_collision_error [of g s c] show ?thesis by simp
  qed
qed

lemma settle_error: "error_of (settle n g s) \<noteq> Some ZeroDivisionError"
proof (induction n arbitrary: g s)
  case 0
  show ?case by simp
next
  case (Suc n)
  show ?case
  proof (cases "check_collisions g (s\<lparr>targets_engaged := 0\<rparr>)")
    case (Raise e g1 s1)
    with check_collisions_error [of g "s\<lparr>targets_engaged := 0\<rparr>"] show ?thesis by simp
  next
    case (Return cs g1 s1)
    show ?thesis
    proof (cases "resolve_collisions g1 s1 cs")
      case (Raise e g2 s2)
      with Return resolve_collisions_error [of g1 s1 cs] show ?thesis by simp
    next
      case r: (Return v g2 s2)
      with Return Suc show ?thesis by simp
    qed
  qed
qed

text \<open>
  Claim C5 says that \<^verbatim>\<open>step\<close> fails for every \<open>fps \<le> 0\<close> and leaves the world
  unchanged, and that it raises nothing for \<open>fps > 0\<close>. The code has no check of
  the frame rate. With \<open>fps = - 4\<close> the step of the world of two players returns
  and has changed the objects; with \<open>fps = 0\<close> the step of a world without
  objects returns; with \<open>fps = 0\<close> the step of \<open>world_box_outside\<close> raises
  \<^verbatim>\<open>ZeroDivisionError\<close>, but only after the settle round has moved the box from
  -100 to 0; and with \<open>fps = 4\<close> the step of \<open>world_thinking_box\<close> raises the
  \<^verbatim>\<open>TypeError\<close> of detection.
\<close>

theorem step_negative_framerate_returns:
  "(- 4 :: int) \<le> 0
   \<and> \<not> raises (step (fst world_two_players) (snd world_two_players) (- 4))
   \<and> globals_after (step (fst world_two_players) (snd world_two_players) (- 4))
       \<noteq> fst world_two_players
   \<and> \<not> raises (step module_init world_a 0)
   \<and> error_of (step (fst world_box_outside) (snd world_box_outside) 0) = Some ZeroDivisionError
   \<and> rect_x (heap (fst world_box_outside) 0) = - 100
   \<and> rect_x (heap (globals_after (step (fst world_box_outside) (snd world_box_outside) 0)) 0) = 0
   \<and> (0 :: int) < 4
   \<and> error_of (step (fst world_thinking_box) (snd world_thinking_box) 4) = Some TypeError"
  apply (intro conjI)
  apply (simp_all add: world_two_players_def world_a_def world_box_outside_def
      world_thinking_box_def world_thinking_def ev_defs step_def
      gravity_then_move_def py_round_def truediv_small truediv_zero call_arity_def
      resolve_collision_def resolve_border_def
      border_left_def border_right_def border_top_def border_bottom_def)
  done

text \<open>
  Claim C5 as amended: the one failure that the frame rate causes is the
  division by zero. \<^verbatim>\<open>step\<close> raises \<^verbatim>\<open>ZeroDivisionError\<close> exactly when \<open>fps = 0\<close>,
  the settle rounds of the tick have completed and the world has a player or a
  box; the world is then the one the settle rounds have left, not the one
  before the call. With \<open>fps = 0\<close> and neither player nor box the step returns
  once the settle rounds have completed. When a settle round raises, the step
  ends with that error whatever the frame rate is. For every other frame
  rate, negative ones included, the step never raises \<^verbatim>\<open>ZeroDivisionError\<close>.
\<close>

theorem step_framerate_unchecked:
  "let settled = settle (length (boxes_of g s)) g (s\<lparr>player_in_thinkingbox := False\<rparr>);
       dynamic_objects = players_of (globals_after settled) (space_after settled)
                         @ boxes_of (globals_after settled) (space_after settled)
   in (error_of (step g s fps) = Some ZeroDivisionError
         \<longleftrightarrow> fps = 0 \<and> \<not> raises settled \<and> dynamic_objects \<noteq> [])
    \<and> (raises settled \<longrightarrow> step g s fps = settled)
    \<and> (fps = 0 \<and> \<not> raises settled
         \<longrightarrow> globals_after (step g s fps) = globals_after settled
           \<and> space_after (step g s fps) = space_after settled)
    \<and> (fps = 0 \<and> \<not> raises settled \<and> dynamic_objects = [] \<longrightarrow> \<not> raises (step g s fps))"
proof (cases "settle (length (boxes_of g s)) g (s\<lparr>player_in_thinkingbox := False\<rparr>)")
  case (Raise e g1 s1)
  have b: "boxes_of g (s\<lparr>player_in_thinkingbox := False\<rparr>) = boxes_of g s"
    by (simp add: boxes_of_def)
  have st: "step g s fps = Raise e g1 s1"
    using Raise by (simp add: step_def Let_def b)
  have "e \<noteq> ZeroDivisionError"
    using settle_error [of "length (boxes_of g s)" g "s\<lparr>player_in_thinkingbox := False\<rparr>"] Raise
    by simp
  then show ?thesis
    using Raise st by (simp add: Let_def)
next
  case (Return v g1 s1)
  have b: "boxes_of g (s\<lparr>player_in_thinkingbox := False\<rparr>) = boxes_of g s"
    by (simp add: boxes_of_def)
  have st: "step g s fps = gravity_then_move g1 s1 fps (players_of g1 s1 @ boxes_of g1 s1)"
    using Return by (simp add: step_def Let_def b)
  show ?thesis
  proof (cases "fps = 0")
    case True
    then show ?thesis
      using Return st by (simp add: Let_def gravity_then_move_zero)
  next
    case False
    then show ?thesis
      using Return st
        gravity_then_move_no_zero_division [of fps g1 s1 "players_of g1 s1 @ boxes_of g1 s1"]
      by (simp add: Let_def)
  qed
qed

text \<open>
  In \<open>world_box_outside\<close> the one settle round completes and the box remains, so
  the step raises for \<open>fps = 0\<close> and does not raise this error for \<open>fps = - 4\<close>;
  in \<open>world_thinking_box\<close> the settle round raises.
\<close>

theorem step_framerate_unchecked_witness:
  "\<not> raises (settle (length (boxes_of (fst world_box_outside) (snd world_box_outside)))
                (fst world_box_outside) ((snd world_box_outside)\<lparr>player_in_thinkingbox := False\<rparr>))
   \<and> length (boxes_of (fst world_box_outside) (snd world_box_outside)) = 1
   \<and> error_of (step (fst world_box_outside) (snd world_box_outside) 0) = Some ZeroDivisionError
   \<and> globals_after (step (fst world_box_outside) (snd world_box_outside) 0)
       = globals_after (settle (length (boxes_of (fst world_box_outside) (snd world_box_outside)))
           (fst world_box_outside) ((snd world_box_outside)\<lparr>player_in_thinkingbox := False\<rparr>))
   \<and> error_of (step (fst world_box_outside) (snd world_box_outside) (- 4))
       \<noteq> Some ZeroDivisionError
   \<and> raises (settle (length (boxes_of (fst world_thinking_box) (snd world_thinking_box)))
                (fst world_thinking_box) ((snd world_thinking_box)\<lparr>player_in_thinkingbox := False\<rparr>))
   \<and> step (fst world_thinking_box) (snd world_thinking_box) 0
       = settle (length (boxes_of (fst world_thinking_box) (snd world_thinking_box)))
           (fst world_thinking_box) ((snd world_thinking_box)\<lparr>player_in_thinkingbox := False\<rparr>)
   \<and> \<not> raises (step module_init world_a 0)"
proof -
  let ?g = "fst world_box_outside" and ?s = "snd world_box_outside"
  let ?settled = "settle (length (boxes_of ?g ?s)) ?g (?s\<lparr>player_in_thinkingbox := False\<rparr>)"
  have n: "length (boxes_of ?g ?s) = 1"
    by (simp add: world_box_outside_def build_defs attr_defs Let_def)
  have r: "\<not> raises ?settled"
    by (simp add: world_box_outside_def ev_defs resolve_collision_def resolve_border_def
        border_left_def border_right_def border_top_def border_bottom_def)
  have d: "players_of (globals_after ?settled) (space_after ?settled)
           @ boxes_of (globals_after ?settled) (space_after ?settled) \<noteq> []"
    by (simp add: world_box_outside_def ev_defs resolve_collision_def resolve_border_def
        border_left_def border_right_def border_top_def border_bottom_def)
  note t0 = step_framerate_unchecked [of ?g ?s 0, unfolded Let_def]
  from t0 r d have z: "error_of (step ?g ?s 0) = Some ZeroDivisionError"
    by blast
  from t0 r have e: "globals_after (step ?g ?s 0) = globals_after ?settled"
    by blast
  note t4 = step_framerate_unchecked [of ?g ?s "- 4", unfolded Let_def]
  have "(- 4 :: int) \<noteq> 0" by simp
  with t4 have m: "error_of (step ?g ?s (- 4)) \<noteq> Some ZeroDivisionError"
    by blast
  let ?g' = "fst world_thinking_box" and ?s' = "snd world_thinking_box"
  let ?settled' = "settle (length (boxes_of ?g' ?s')) ?g' (?s'\<lparr>player_in_thinkingbox := False\<rparr>)"
  have r': "raises ?settled'"
    by (simp add: world_thinking_box_def world_thinking_def ev_defs call_arity_def)
  note t' = step_framerate_unchecked [of ?g' ?s' 0, unfolded Let_def]
  from t' r' have q: "step ?g' ?s' 0 = ?settled'"
    by blast
  let ?settled0 = "settle (length (boxes_of module_init world_a)) module_init
                     (world_a\<lparr>player_in_thinkingbox := False\<rparr>)"
  have r0: "\<not> raises ?settled0"
    by (simp add: world_a_def build_defs attr_defs Let_def)
  have d0: "players_of (globals_after ?settled0) (space_after ?settled0)
           @ boxes_of (globals_after ?settled0) (space_after ?settled0) = []"
    by (simp add: world_a_def build_defs attr_defs Let_def)
  note t00 = step_framerate_unchecked [of module_init world_a 0, unfolded Let_def]
  from t00 r0 d0 have o: "\<not> raises (step module_init world_a 0)"
    by blast
  from r n z e m r' q o show ?thesis by blast
qed

subsection \<open>Unknown types in add_object\<close>

text \<open>
  Claim C4 says that \<^verbatim>\<open>add_object\<close> fails for a type outside the five known
  ones. The code has no such failure: for the type \<^verbatim>\<open>"enemy"\<close> the call returns.
\<close>

theorem add_object_unknown_type_returns:
  "''enemy'' \<notin> {''target'', ''player'', ''box'', ''platform'', ''trigger_zone'', ''thinkingbox''}
   \<and> \<not> raises (add_object module_init world_a 1 1 1 1 ''enemy'')"
  by (simp add: world_a_def build_defs Let_def)

text \<open>
  Claim C4 as amended: for a type other than \<^verbatim>\<open>"target"\<close>, \<^verbatim>\<open>"player"\<close>, \<^verbatim>\<open>"box"\<close>,
  \<^verbatim>\<open>"platform"\<close> and \<^verbatim>\<open>"thinkingbox"\<close>, the type causes no error. When the four
  scaled coordinates fit a C \<^verbatim>\<open>int\<close>, \<^verbatim>\<open>add_object\<close> returns a new object with
  these coordinates. The only error is the \<^verbatim>\<open>TypeError\<close> of the rectangle for a
  coordinate it cannot convert, which leaves everything unchanged. In every
  case the object is in none of the lists of the world, and the lists and the
  thinking-box are unchanged.
\<close>

theorem add_object_unknown_type:
  assumes "type \<notin> {''target'', ''player'', ''box'', ''platform'', ''thinkingbox''}"
  shows "(c_int_range (x * upscale s) \<and> c_int_range (y * upscale s)
          \<and> c_int_range (w * upscale s) \<and> c_int_range (h * upscale s)
          \<longrightarrow> add_object g s x y w h type
                = Return (fresh g)
                    (g\<lparr>heap := (heap g)(fresh g := Object_init (x * upscale s) (y * upscale s)
                                               (w * upscale s) (h * upscale s) (upscale s)),
                       fresh := Suc (fresh g)\<rparr>) s)
       \<and> (raises (add_object g s x y w h type)
          \<longrightarrow> add_object g s x y w h type = Raise TypeError g s)
       \<and> targets_of (globals_after (add_object g s x y w h type))
            (space_after (add_object g s x y w h type)) = targets_of g s
       \<and> players_of (globals_after (add_object g s x y w h type))
            (space_after (add_object g s x y w h type)) = players_of g s
       \<and> boxes_of (globals_after (add_object g s x y w h type))
            (space_after (add_object g s x y w h type)) = boxes_of g s
       \<and> platforms_of (globals_after (add_object g s x y w h type))
            (space_after (add_object g s x y w h type)) = platforms_of g s
       \<and> thinkingbox (space_after (add_object g s x y w h type)) = thinkingbox s"
proof (cases "Object_new (x * upscale s) (y * upscale s) (w * upscale s) (h * upscale s) (upscale s)")
  case (Inl e)
  then have e: "e = TypeError" by (rule Object_new_error)
  have n: "\<not> (c_int_range (x * upscale s) \<and> c_int_range (y * upscale s)
          \<and> c_int_range (w * upscale s) \<and> c_int_range (h * upscale s))"
    using Inl Object_new_id [of "x * upscale s" "y * upscale s" "w * upscale s" "h * upscale s"
        "upscale s"] by auto
  have r: "add_object g s x y w h type = Raise TypeError g s"
    using Inl e by (simp add: add_object_def)
  show ?thesis
    using n by (simp add: r)
next
  case (Inr ob)
  have r: "add_object g s x y w h type
             = Return (fresh g) (g\<lparr>heap := (heap g)(fresh g := ob), fresh := Suc (fresh g)\<rparr>) s"
    using Inr assms by (simp add: add_object_def Let_def)
  have o: "c_int_range (x * upscale s) \<and> c_int_range (y * upscale s)
          \<and> c_int_range (w * upscale s) \<and> c_int_range (h * upscale s)
          \<longrightarrow> ob = Object_init (x * upscale s) (y * upscale s)
                                               (w * upscale s) (h * upscale s) (upscale s)"
    using Inr Object_new_id [of "x * upscale s" "y * upscale s" "w * upscale s" "h * upscale s"
        "upscale s"] by auto
  show ?thesis
    using o
    by (auto simp add: r targets_of_def players_of_def boxes_of_def platforms_of_def
        split: option.split)
qed

theorem add_object_unknown_type_witness:
  "''enemy'' \<notin> {''target'', ''player'', ''box'', ''platform'', ''thinkingbox''}
   \<and> c_int_range (1 * upscale world_a)
   \<and> add_object module_init world_a 1 1 1 1 ''enemy''
       = Return 0 (module_init\<lparr>heap := (heap module_init)(0 := Object_init 100 100 100 100 100),
                    fresh := 1\<rparr>) world_a
   \<and> boxes_of (globals_after (add_object module_init world_a 1 1 1 1 ''enemy''))
        (space_after (add_object module_init world_a 1 1 1 1 ''enemy'')) = []
   \<and> raises (add_object module_init world_a 100000000000000000 1 1 1 ''enemy'')
   \<and> add_object module_init world_a 100000000000000000 1 1 1 ''enemy''
       = Raise TypeError module_init world_a"
proof -
  have h: "''enemy'' \<notin> {''target'', ''player'', ''box'', ''platform'', ''thinkingbox''}"
    by simp
  have f: "fresh module_init = 0" "upscale world_a = 100" "boxes_of module_init world_a = []"
    by (simp_all add: module_init_def world_a_def Space_init_def boxes_of_def)
  have c: "c_int_range (1 * upscale world_a)"
    by (simp add: f c_int_range_def)
  note t = add_object_unknown_type [OF h, of 1 world_a 1 1 1 module_init]
  from t c have e: "add_object module_init world_a 1 1 1 1 ''enemy''
       = Return 0 (module_init\<lparr>heap := (heap module_init)(0 := Object_init 100 100 100 100 100),
                    fresh := 1\<rparr>) world_a"
    unfolding f by simp
  from t have b: "boxes_of (globals_after (add_object module_init world_a 1 1 1 1 ''enemy''))
        (space_after (add_object module_init world_a 1 1 1 1 ''enemy'')) = []"
    unfolding f by blast
  have r: "raises (add_object module_init world_a 100000000000000000 1 1 1 ''enemy'')"
    by (simp add: world_a_def build_defs Let_def)
  from add_object_unknown_type [OF h, of 100000000000000000 world_a 1 1 1 module_init] r
  have q: "add_object module_init world_a 100000000000000000 1 1 1 ''enemy''
       = Raise TypeError module_init world_a"
    by blast
  from h c e b r q show ?thesis by blast
qed

subsection \<open>The side of a contact\<close>

lemma whatside_item:
  "whatside g (item1, Item item2, ct) tol =
     Inr (if \<bar>rect_top (heap g item1) - rect_bottom (heap g item2)\<bar> < tol then Some SideTop
          else if \<bar>rect_bottom (heap g item1) - rect_top (heap g item2)\<bar> < tol then Some SideBottom
          else if \<bar>rect_right (heap g item1) - rect_left (heap g item2)\<bar> < tol then Some SideRight
          else if \<bar>rect_left (heap g item1) - rect_right (heap g item2)\<bar> < tol then Some SideLeft
          else None)"
  by (simp add: whatside_def Let_def)

lemma resolve_no_side:
  "resolve_platform g s item1 item2 None = (g, s)"
  "resolve_player_box g s item1 item2 None = (g, s)"
  "resolve_box_box g s alpha item1 item2 None = (g, s)"
  by (simp_all add: resolve_platform_def resolve_player_box_def resolve_box_box_def)

text \<open>
  Claim C6: for a collision of one of the three kinds that depend on the side
  (\<^verbatim>\<open>object_to_platform\<close>, \<^verbatim>\<open>player_to_box\<close>, \<^verbatim>\<open>box_to_box\<close>), \<^verbatim>\<open>whatside\<close> tests
  top, bottom, right, left in this order and returns the first side whose
  edge distance is strictly below 31; when none of the four distances is below
  31, resolving the collision changes nothing, neither the objects nor the
  world.
\<close>

theorem whatside_priority_and_no_side:
  "whatside g (item1, Item item2, ct) 31 =
     Inr (if \<bar>rect_top (heap g item1) - rect_bottom (heap g item2)\<bar> < 31 then Some SideTop
          else if \<bar>rect_bottom (heap g item1) - rect_top (heap g item2)\<bar> < 31 then Some SideBottom
          else if \<bar>rect_right (heap g item1) - rect_left (heap g item2)\<bar> < 31 then Some SideRight
          else if \<bar>rect_left (heap g item1) - rect_right (heap g item2)\<bar> < 31 then Some SideLeft
          else None)
   \<and> (ct \<in> {object_to_platform, player_to_box, box_to_box}
        \<and> \<not> \<bar>rect_top (heap g item1) - rect_bottom (heap g item2)\<bar> < 31
        \<and> \<not> \<bar>rect_bottom (heap g item1) - rect_top (heap g item2)\<bar> < 31
        \<and> \<not> \<bar>rect_right (heap g item1) - rect_left (heap g item2)\<bar> < 31
        \<and> \<not> \<bar>rect_left (heap g item1) - rect_right (heap g item2)\<bar> < 31
      \<longrightarrow> globals_after (resolve_collision g s (item1, Item item2, ct)) = g
          \<and> space_after (resolve_collision g s (item1, Item item2, ct)) = s)"
proof (intro conjI impI)
  show "whatside g (item1, Item item2, ct) 31 =
     Inr (if \<bar>rect_top (heap g item1) - rect_bottom (heap g item2)\<bar> < 31 then Some SideTop
          else if \<bar>rect_bottom (heap g item1) - rect_top (heap g item2)\<bar> < 31 then Some SideBottom
          else if \<bar>rect_right (heap g item1) - rect_left (heap g item2)\<bar> < 31 then Some SideRight
          else if \<bar>rect_left (heap g item1) - rect_right (heap g item2)\<bar> < 31 then Some SideLeft
          else None)"
    by (rule whatside_item)
next
  assume a: "ct \<in> {object_to_platform, player_to_box, box_to_box}
        \<and> \<not> \<bar>rect_top (heap g item1) - rect_bottom (heap g item2)\<bar> < 31
        \<and> \<not> \<bar>rect_bottom (heap g item1) - rect_top (heap g item2)\<bar> < 31
        \<and> \<not> \<bar>rect_right (heap g item1) - rect_left (heap g item2)\<bar> < 31
        \<and> \<not> \<bar>rect_left (heap g item1) - rect_right (heap g item2)\<bar> < 31"
  then have w: "whatside g (item1, Item item2, ct) 31 = Inr None"
    by (simp add: whatside_item)
  from a have c: "ct = object_to_platform \<or> ct = player_to_box \<or> ct = box_to_box"
    by simp
  from c w show "globals_after (resolve_collision g s (item1, Item item2, ct)) = g"
    by (auto simp add: resolve_collision_def resolve_no_side ctype_defs Let_def split: list.split)
  from c w show "space_after (resolve_collision g s (item1, Item item2, ct)) = s"
    by (auto simp add: resolve_collision_def resolve_no_side ctype_defs Let_def split: list.split)
qed

text \<open>
  The player of \<open>world_deep_overlap\<close> is more than 31 units away from every edge
  of the platform it overlaps; in \<open>world_two_boxes\<close> the first three tests fail
  and the fourth gives the left side.
\<close>

theorem whatside_priority_and_no_side_witness:
  "object_to_platform \<in> {object_to_platform, player_to_box, box_to_box}
   \<and> whatside (fst world_deep_overlap) (1, Item 0, object_to_platform) 31 = Inr None
   \<and> globals_after (resolve_collision (fst world_deep_overlap) (snd world_deep_overlap)
        (1, Item 0, object_to_platform)) = fst world_deep_overlap
   \<and> space_after (resolve_collision (fst world_deep_overlap) (snd world_deep_overlap)
        (1, Item 0, object_to_platform)) = snd world_deep_overlap
   \<and> whatside (fst world_two_boxes) (1, Item 2, box_to_box) 31 = Inr (Some SideLeft)"
proof -
  have c: "object_to_platform \<in> {object_to_platform, player_to_box, box_to_box}"
    by simp
  have d: "\<not> \<bar>rect_top (heap (fst world_deep_overlap) 1)
               - rect_bottom (heap (fst world_deep_overlap) 0)\<bar> < 31"
    "\<not> \<bar>rect_bottom (heap (fst world_deep_overlap) 1)
               - rect_top (heap (fst world_deep_overlap) 0)\<bar> < 31"
    "\<not> \<bar>rect_right (heap (fst world_deep_overlap) 1)
               - rect_left (heap (fst world_deep_overlap) 0)\<bar> < 31"
    "\<not> \<bar>rect_left (heap (fst world_deep_overlap) 1)
               - rect_right (heap (fst world_deep_overlap) 0)\<bar> < 31"
    by (simp_all add: world_deep_overlap_def build_defs attr_defs rect_defs Let_def)
  have b: "\<not> \<bar>rect_top (heap (fst world_two_boxes) 1)
               - rect_bottom (heap (fst world_two_boxes) 2)\<bar> < 31"
    "\<not> \<bar>rect_bottom (heap (fst world_two_boxes) 1)
               - rect_top (heap (fst world_two_boxes) 2)\<bar> < 31"
    "\<not> \<bar>rect_right (heap (fst world_two_boxes) 1)
               - rect_left (heap (fst world_two_boxes) 2)\<bar> < 31"
    "\<bar>rect_left (heap (fst world_two_boxes) 1)
               - rect_right (heap (fst world_two_boxes) 2)\<bar> < 31"
    by (simp_all add: world_two_boxes_def build_defs attr_defs rect_defs Let_def)
  note t = whatside_priority_and_no_side
    [of "fst world_deep_overlap" 1 0 object_to_platform "snd world_deep_overlap"]
  from t d have w: "whatside (fst world_deep_overlap) (1, Item 0, object_to_platform) 31 = Inr None"
    by simp
  from t c d have r:
    "globals_after (resolve_collision (fst world_deep_overlap) (snd world_deep_overlap)
        (1, Item 0, object_to_platform)) = fst world_deep_overlap
     \<and> space_after (resolve_collision (fst world_deep_overlap) (snd world_deep_overlap)
        (1, Item 0, object_to_platform)) = snd world_deep_overlap"
    by blast
  from whatside_priority_and_no_side [of "fst world_two_boxes" 1 2 box_to_box] b
  have l: "whatside (fst world_two_boxes) (1, Item 2, box_to_box) 31 = Inr (Some SideLeft)"
    by simp
  from c w r l show ?thesis by blast
qed

subsection \<open>Updates of one object\<close>

lemma heap_upd: "heap (upd r f g) r' = (if r' = r then f (heap g r) else heap g r')"
  by (simp add: upd_def)

lemma rect_store_speed0:
  "rect_x (heap (store_speed0 g r v) r') = rect_x (heap g r')"
  "rect_y (heap (store_speed0 g r v) r') = rect_y (heap g r')"
  "rect_w (heap (store_speed0 g r v) r') = rect_w (heap g r')"
  "rect_h (heap (store_speed0 g r v) r') = rect_h (heap g r')"
  by (simp_all add: store_speed0_def upd_def split: option.split)

lemma rect_store_speed1:
  "rect_x (heap (store_speed1 g r v) r') = rect_x (heap g r')"
  "rect_y (heap (store_speed1 g r v) r') = rect_y (heap g r')"
  "rect_w (heap (store_speed1 g r v) r') = rect_w (heap g r')"
  "rect_h (heap (store_speed1 g r v) r') = rect_h (heap g r')"
  by (simp_all add: store_speed1_def upd_def split: option.split)

lemma get_speed_upd_rect:
  "get_speed (upd r (set_left v) g) r' = get_speed g r'"
  "get_speed (upd r (set_right v) g) r' = get_speed g r'"
  by (simp_all add: get_speed_def upd_def set_left_def set_right_def split: option.split)

lemma fst_get_speed_store0_same: "fst (get_speed (store_speed0 g r v) r) = v"
  by (simp add: get_speed_def store_speed0_def upd_def split: option.split)

lemma fst_get_speed_store0_zero:
  "fst (get_speed g r') = 0 \<Longrightarrow> fst (get_speed (store_speed0 g r 0) r') = 0"
  by (auto simp add: get_speed_def store_speed0_def upd_def split: option.splits)

lemma box_box_speeds:
  "fst (get_speed (store_speed0 (store_speed0 g item1 0) item2 0) item1) = 0"
  "fst (get_speed (store_speed0 (store_speed0 g item1 0) item2 0) item2) = 0"
  by (simp_all add: fst_get_speed_store0_same fst_get_speed_store0_zero)

subsection \<open>The border\<close>

text \<open>One axis of the border block, on numbers.\<close>

lemma clamp_axis:
  assumes x: "c_int_range x" and w: "c_int_range w" and le: "w \<le> W"
    and x1: "x1 = (if x < 0 then 0 else x)"
    and gt: "wrap_int (x1 + w) > W"
  shows "pg_IntFromObj W = Inr W \<and> 0 \<le> wrap_int (W - w)
         \<and> wrap_int (wrap_int (W - w) + w) \<le> W"
proof -
  have r: "c_int_range (wrap_int (x1 + w))" by (rule wrap_int_range)
  have x1r: "0 \<le> x1" "x1 \<le> 2147483647"
    using x x1 by (auto simp add: c_int_range_def)
  have Wr: "c_int_range W"
    using r gt le w by (simp add: c_int_range_def)
  have d: "c_int_range (W - w)"
  proof (cases "0 \<le> w")
    case True
    then show ?thesis using Wr le by (simp add: c_int_range_def)
  next
    case False
    then have "c_int_range (x1 + w)"
      using x1r w by (simp add: c_int_range_def)
    then have "x1 + w > W" using gt by (simp add: wrap_int_id)
    then show ?thesis using x1r le by (simp add: c_int_range_def)
  qed
  have "wrap_int (wrap_int (W - w) + w) = W"
    by (simp add: wrap_int_sub_add wrap_int_id Wr)
  moreover have "0 \<le> wrap_int (W - w)"
    using le by (simp add: wrap_int_id d)
  ultimately show ?thesis
    by (simp add: pg_IntFromObj_id Wr)
qed

lemma border_left_rect:
  "rect_x (heap (border_left g item1) item1)
     = (if rect_x (heap g item1) < 0 then 0 else rect_x (heap g item1))"
  "rect_y (heap (border_left g item1) item1) = rect_y (heap g item1)"
  "rect_w (heap (border_left g item1) item1) = rect_w (heap g item1)"
  "rect_h (heap (border_left g item1) item1) = rect_h (heap g item1)"
  by (simp_all add: border_left_def heap_upd rect_store_speed0 rect_left_def set_left_def)

lemma border_top_rect:
  "rect_y (heap (border_top g item1) item1)
     = (if rect_y (heap g item1) < 0 then 0 else rect_y (heap g item1))"
  "rect_x (heap (border_top g item1) item1) = rect_x (heap g item1)"
  "rect_w (heap (border_top g item1) item1) = rect_w (heap g item1)"
  "rect_h (heap (border_top g item1) item1) = rect_h (heap g item1)"
  by (simp_all add: border_top_def heap_upd rect_store_speed1 rect_top_def set_top_def)

lemma border_right_ok:
  assumes "c_int_range (rect_x (heap g item1))" "c_int_range (rect_w (heap g item1))"
    and "rect_w (heap g item1) \<le> space_w s"
  shows "\<exists>g2. border_right (border_left g item1) s item1 = Inr g2
           \<and> 0 \<le> rect_x (heap g2 item1)
           \<and> wrap_int (rect_x (heap g2 item1) + rect_w (heap g2 item1)) \<le> space_w s
           \<and> rect_y (heap g2 item1) = rect_y (heap g item1)
           \<and> rect_h (heap g2 item1) = rect_h (heap g item1)"
proof (cases "wrap_int ((if rect_x (heap g item1) < 0 then 0 else rect_x (heap g item1))
                 + rect_w (heap g item1)) > space_w s")
  case True
  note c = clamp_axis [OF assms(1) assms(2) assms(3) refl True]
  show ?thesis
    using True c
    by (simp add: border_right_def border_left_rect rect_right_def heap_upd rect_store_speed0
        set_right_def)
next
  case False
  then show ?thesis
    by (simp add: border_right_def border_left_rect rect_right_def)
qed

lemma border_bottom_ok:
  assumes "c_int_range (rect_y (heap g item1))" "c_int_range (rect_h (heap g item1))"
    and "rect_h (heap g item1) \<le> space_h s"
  shows "\<exists>g4. border_bottom (border_top g item1) s item1 = Inr g4
           \<and> 0 \<le> rect_y (heap g4 item1)
           \<and> wrap_int (rect_y (heap g4 item1) + rect_h (heap g4 item1)) \<le> space_h s
           \<and> rect_x (heap g4 item1) = rect_x (heap g item1)
           \<and> rect_w (heap g4 item1) = rect_w (heap g item1)"
proof (cases "wrap_int ((if rect_y (heap g item1) < 0 then 0 else rect_y (heap g item1))
                 + rect_h (heap g item1)) > space_h s")
  case True
  note c = clamp_axis [OF assms(1) assms(2) assms(3) refl True]
  show ?thesis
    using True c
    by (simp add: border_bottom_def border_top_rect rect_bottom_def heap_upd rect_store_speed1
        set_bottom_def)
next
  case False
  then show ?thesis
    by (simp add: border_bottom_def border_top_rect rect_bottom_def)
qed

lemma resolve_collision_border:
  "resolve_collision g s (item1, Wall, object_to_border) = resolve_border g s item1"
  by (simp add: resolve_collision_def ctype_defs Let_def)

text \<open>
  Claim C9 says that after the settle rounds of a tick every object of the
  world lies inside the border. Three worlds show what the code does instead.
  It checks the border for boxes and players only: the platform of
  \<open>world_platform_outside\<close>, placed left of the border, is where it was after
  the settle round. It corrects an object when its border collision is
  resolved, and later collisions of the same round move objects again: the box
  of \<open>world_box_pushed_out\<close> starts at the border, no border collision is
  detected for it, and the collision with the player that pushes it puts it at
  -10, where the settle round leaves it. And the correction at the right border
  moves the left edge: the box of \<open>world_wide_box\<close>, wider than the world, has
  its left edge at -1000 after its border collision and after the settle round.
\<close>

theorem settle_leaves_entities_outside:
  "platforms_of (fst world_platform_outside) (snd world_platform_outside) = [0]
   \<and> length (boxes_of (fst world_platform_outside) (snd world_platform_outside)) = 1
   \<and> \<not> raises (settle (length (boxes_of (fst world_platform_outside) (snd world_platform_outside)))
                 (fst world_platform_outside) (snd world_platform_outside))
   \<and> rect_left (heap (globals_after
        (settle (length (boxes_of (fst world_platform_outside) (snd world_platform_outside)))
           (fst world_platform_outside) (snd world_platform_outside))) 0) = - 500
   \<and> boxes_of (fst world_box_pushed_out) (snd world_box_pushed_out) = [0]
   \<and> rect_left (heap (fst world_box_pushed_out) 0) = 0
   \<and> \<not> raises (settle (length (boxes_of (fst world_box_pushed_out) (snd world_box_pushed_out)))
                 (fst world_box_pushed_out) (snd world_box_pushed_out))
   \<and> rect_left (heap (globals_after
        (settle (length (boxes_of (fst world_box_pushed_out) (snd world_box_pushed_out)))
           (fst world_box_pushed_out) (snd world_box_pushed_out))) 0) = - 10
   \<and> boxes_of (fst world_wide_box) (snd world_wide_box) = [0]
   \<and> rect_ok (heap (fst world_wide_box) 0)
   \<and> rect_w (heap (fst world_wide_box) 0) = 3000
   \<and> space_w (snd world_wide_box) = 2000
   \<and> \<not> raises (resolve_collision (fst world_wide_box) (snd world_wide_box)
                 (0, Wall, object_to_border))
   \<and> rect_left (heap (globals_after
        (resolve_collision (fst world_wide_box) (snd world_wide_box)
           (0, Wall, object_to_border))) 0) = - 1000
   \<and> rect_left (heap (globals_after
        (settle (length (boxes_of (fst world_wide_box) (snd world_wide_box)))
           (fst world_wide_box) (snd world_wide_box))) 0) = - 1000"
  apply (intro conjI)
  apply (simp_all add: world_platform_outside_def world_box_pushed_out_def world_wide_box_def
        ev_defs whatside_def resolve_collision_def resolve_player_box_def resolve_border_def
        border_left_def border_right_def border_top_def border_bottom_def rect_ok_def
        c_int_range_def)
  done

text \<open>
  Claim C9 as amended: resolving a collision with the border raises nothing,
  and right after it the object of that collision, if it is no wider and no
  higher than the world, satisfies \<open>0 \<le> left\<close>, \<open>0 \<le> top\<close>, \<open>right \<le> width\<close> and
  \<open>bottom \<le> height\<close>. (The first hypothesis says that the coordinates of the
  object are C integers, as those of every rectangle are.)
\<close>

theorem border_event_puts_object_in_bounds:
  assumes "rect_ok (heap g item1)"
    and "rect_w (heap g item1) \<le> space_w s" and "rect_h (heap g item1) \<le> space_h s"
  shows "\<not> raises (resolve_collision g s (item1, Wall, object_to_border))
       \<and> 0 \<le> rect_left
                (heap (globals_after (resolve_collision g s (item1, Wall, object_to_border))) item1)
       \<and> 0 \<le> rect_top
                (heap (globals_after (resolve_collision g s (item1, Wall, object_to_border))) item1)
       \<and> rect_right
           (heap (globals_after (resolve_collision g s (item1, Wall, object_to_border))) item1)
           \<le> space_w s
       \<and> rect_bottom
           (heap (globals_after (resolve_collision g s (item1, Wall, object_to_border))) item1)
           \<le> space_h s"
proof -
  from assms(1) have r: "c_int_range (rect_x (heap g item1))" "c_int_range (rect_w (heap g item1))"
    "c_int_range (rect_y (heap g item1))" "c_int_range (rect_h (heap g item1))"
    by (simp_all add: rect_ok_def)
  from border_right_ok [OF r(1) r(2) assms(2)]
  obtain g2 where g2: "border_right (border_left g item1) s item1 = Inr g2"
    "0 \<le> rect_x (heap g2 item1)"
    "wrap_int (rect_x (heap g2 item1) + rect_w (heap g2 item1)) \<le> space_w s"
    "rect_y (heap g2 item1) = rect_y (heap g item1)"
    "rect_h (heap g2 item1) = rect_h (heap g item1)"
    by blast
  have "c_int_range (rect_y (heap g2 item1))" "c_int_range (rect_h (heap g2 item1))"
    "rect_h (heap g2 item1) \<le> space_h s"
    using g2 r assms(3) by simp_all
  from border_bottom_ok [OF this]
  obtain g4 where g4: "border_bottom (border_top g2 item1) s item1 = Inr g4"
    "0 \<le> rect_y (heap g4 item1)"
    "wrap_int (rect_y (heap g4 item1) + rect_h (heap g4 item1)) \<le> space_h s"
    "rect_x (heap g4 item1) = rect_x (heap g2 item1)"
    "rect_w (heap g4 item1) = rect_w (heap g2 item1)"
    by blast
  have e: "resolve_collision g s (item1, Wall, object_to_border) = Return () g4 s"
    by (simp add: resolve_collision_border resolve_border_def g2 g4)
  show ?thesis
    using g2 g4
    by (simp add: e rect_left_def rect_top_def rect_right_def rect_bottom_def)
qed

text \<open>The box of \<open>world_box_outside\<close> is reported by detection and put back at the border.\<close>

theorem border_event_puts_object_in_bounds_witness:
  "rect_ok (heap (fst world_box_outside) 0)
   \<and> rect_w (heap (fst world_box_outside) 0) \<le> space_w (snd world_box_outside)
   \<and> rect_h (heap (fst world_box_outside) 0) \<le> space_h (snd world_box_outside)
   \<and> rect_left (heap (fst world_box_outside) 0) = - 100
   \<and> check_collisions (fst world_box_outside) (snd world_box_outside)
       = Return [(0, Wall, object_to_border)] (fst world_box_outside) (snd world_box_outside)
   \<and> 0 \<le> rect_left (heap (globals_after
        (resolve_collision (fst world_box_outside) (snd world_box_outside)
           (0, Wall, object_to_border))) 0)
   \<and> rect_right (heap (globals_after
        (resolve_collision (fst world_box_outside) (snd world_box_outside)
           (0, Wall, object_to_border))) 0) \<le> space_w (snd world_box_outside)"
proof -
  have k: "rect_ok (heap (fst world_box_outside) 0)"
    by (simp add: world_box_outside_def build_defs attr_defs rect_ok_def c_int_range_def Let_def)
  have w: "rect_w (heap (fst world_box_outside) 0) \<le> space_w (snd world_box_outside)"
    by (simp add: world_box_outside_def build_defs attr_defs Let_def)
  have h: "rect_h (heap (fst world_box_outside) 0) \<le> space_h (snd world_box_outside)"
    by (simp add: world_box_outside_def build_defs attr_defs Let_def)
  have l: "rect_left (heap (fst world_box_outside) 0) = - 100"
    by (simp add: world_box_outside_def build_defs attr_defs rect_defs Let_def)
  have c: "check_collisions (fst world_box_outside) (snd world_box_outside)
       = Return [(0, Wall, object_to_border)] (fst world_box_outside) (snd world_box_outside)"
    by (simp add: world_box_outside_def ev_defs)
  from border_event_puts_object_in_bounds [OF k w h] k w h l c show ?thesis by blast
qed

subsection \<open>Two boxes in contact\<close>

lemma resolve_collision_box_box:
  assumes "players_of g s = player0 # ps"
      and "whatside g (item1, Item item2, box_to_box) 31 = Inr sd"
  shows "resolve_collision g s (item1, Item item2, box_to_box)
           = Return () (fst (resolve_box_box g s (alpha_box g player0 item1 item2) item1 item2 sd))
                       (snd (resolve_box_box g s (alpha_box g player0 item1 item2) item1 item2 sd))"
  using assms by (simp add: resolve_collision_def ctype_defs Let_def)

lemma alpha_box_nearer:
  "alpha_box g player0 item1 item2 = item1 \<or> alpha_box g player0 item1 item2 = item2"
  "\<bar>rect_x (heap g player0) - rect_x (heap g (alpha_box g player0 item1 item2))\<bar>
     \<le> \<bar>rect_x (heap g player0)
          - rect_x (heap g (if alpha_box g player0 item1 item2 = item1 then item2 else item1))\<bar>"
  "\<bar>rect_x (heap g player0) - rect_x (heap g item1)\<bar>
     \<le> \<bar>rect_x (heap g player0) - rect_x (heap g item2)\<bar>
   \<Longrightarrow> alpha_box g player0 item1 item2 = item1"
  "\<bar>rect_x (heap g player0) - rect_x (heap g item1)\<bar>
     > \<bar>rect_x (heap g player0) - rect_x (heap g item2)\<bar>
   \<Longrightarrow> alpha_box g player0 item1 item2 = item2"
  by (simp_all add: alpha_box_def Let_def)

text \<open>
  Claim C1 says that in a collision of two boxes the dominant box is the one
  farther from the first player and that the nearer box is moved. In the code
  it is the other way round: in \<open>world_two_boxes\<close> detection reports the
  collision of box 1 (1000 units from the player) with box 2 (910 units), the
  contact is on the left side of box 1, and resolving it moves box 1, the
  farther one, from 1000 to 1010 while box 2 stays at 910.
\<close>

theorem farther_box_yields:
  "check_collisions (fst world_two_boxes) (snd world_two_boxes)
     = Return [(1, Item 2, box_to_box)] (fst world_two_boxes) (snd world_two_boxes)
   \<and> players_of (fst world_two_boxes) (snd world_two_boxes) = [0]
   \<and> \<bar>rect_x (heap (fst world_two_boxes) 0) - rect_x (heap (fst world_two_boxes) 1)\<bar> = 1000
   \<and> \<bar>rect_x (heap (fst world_two_boxes) 0) - rect_x (heap (fst world_two_boxes) 2)\<bar> = 910
   \<and> whatside (fst world_two_boxes) (1, Item 2, box_to_box) 31 = Inr (Some SideLeft)
   \<and> rect_x (heap (globals_after
        (resolve_collision (fst world_two_boxes) (snd world_two_boxes) (1, Item 2, box_to_box))) 1)
       = 1010
   \<and> rect_x (heap (globals_after
        (resolve_collision (fst world_two_boxes) (snd world_two_boxes) (1, Item 2, box_to_box))) 2)
       = 910"
  by (simp add: world_two_boxes_def build_defs attr_defs rect_defs check_collisions_def
        check_borders_def ctype_defs whatside_def resolve_collision_def resolve_box_box_def
        alpha_box_def Let_def)

text \<open>
  Claim C1 as amended: when a collision between two different boxes is resolved
  with at least one player present, the dominant box \<^verbatim>\<open>alpha_box\<close> is the
  participant whose horizontal distance from the first player is not larger
  than the other's: the first participant when its distance is smaller or the
  two distances are equal, the second participant when the first is strictly
  farther. On a contact on the left or right side the horizontal velocities of
  both boxes become 0, the dominant box keeps its position and size, and the
  other box is moved so that its edge meets the edge of the dominant box. (The
  hypotheses on the two rectangles say that their coordinates are C integers,
  as those of every rectangle are.)
\<close>

theorem box_to_box_horizontal_contact:
  assumes "players_of g s = player0 # ps"
      and "item1 \<noteq> item2"
      and "rect_ok (heap g item1)" and "rect_ok (heap g item2)"
      and "whatside g (item1, Item item2, box_to_box) 31 = Inr (Some sd)"
      and "sd = SideLeft \<or> sd = SideRight"
  shows "let alpha = alpha_box g player0 item1 item2;
             other = (if alpha = item1 then item2 else item1);
             g' = globals_after (resolve_collision g s (item1, Item item2, box_to_box))
         in \<not> raises (resolve_collision g s (item1, Item item2, box_to_box))
          \<and> (alpha = item1 \<or> alpha = item2)
          \<and> \<bar>rect_x (heap g player0) - rect_x (heap g alpha)\<bar>
               \<le> \<bar>rect_x (heap g player0) - rect_x (heap g other)\<bar>
          \<and> (\<bar>rect_x (heap g player0) - rect_x (heap g item1)\<bar>
                 \<le> \<bar>rect_x (heap g player0) - rect_x (heap g item2)\<bar> \<longrightarrow> alpha = item1)
          \<and> (\<bar>rect_x (heap g player0) - rect_x (heap g item1)\<bar>
                 > \<bar>rect_x (heap g player0) - rect_x (heap g item2)\<bar> \<longrightarrow> alpha = item2)
          \<and> fst (get_speed g' item1) = 0 \<and> fst (get_speed g' item2) = 0
          \<and> rect_x (heap g' alpha) = rect_x (heap g alpha)
          \<and> rect_y (heap g' alpha) = rect_y (heap g alpha)
          \<and> rect_w (heap g' alpha) = rect_w (heap g alpha)
          \<and> rect_h (heap g' alpha) = rect_h (heap g alpha)
          \<and> (sd = SideLeft \<longrightarrow>
                (if alpha = item1 then rect_right (heap g' other) = rect_left (heap g' alpha)
                 else rect_left (heap g' other) = rect_right (heap g' alpha)))
          \<and> (sd = SideRight \<longrightarrow>
                (if alpha = item1 then rect_left (heap g' other) = rect_right (heap g' alpha)
                 else rect_right (heap g' other) = rect_left (heap g' alpha)))"
proof -
  note e = resolve_collision_box_box [OF assms(1) assms(5)]
  note n = alpha_box_nearer [of g player0 item1 item2]
  have x: "wrap_int (rect_x (heap g item1)) = rect_x (heap g item1)"
    "wrap_int (rect_x (heap g item2)) = rect_x (heap g item2)"
    using assms(3) assms(4) by (simp_all add: rect_ok_def wrap_int_id)
  from assms(6) show ?thesis
  proof
    assume l: "sd = SideLeft"
    show ?thesis
      using n assms(2) x
      unfolding e Let_def
      by (auto simp add: l resolve_box_box_def Let_def heap_upd rect_store_speed0 get_speed_upd_rect
          box_box_speeds rect_left_def rect_right_def set_left_def set_right_def wrap_int_sub_add)
  next
    assume r: "sd = SideRight"
    show ?thesis
      using n assms(2) x
      unfolding e Let_def
      by (auto simp add: r resolve_box_box_def Let_def heap_upd rect_store_speed0 get_speed_upd_rect
          box_box_speeds rect_left_def rect_right_def set_left_def set_right_def wrap_int_sub_add)
  qed
qed

text \<open>
  In \<open>world_two_boxes\<close> the dominant box is box 2, the nearer one, and box 1 is
  moved to its right edge. In \<open>world_boxes_tie\<close> both boxes are 45 units from the
  player: the dominant box is box 1, the first participant, and box 2 is moved
  to its right edge.
\<close>

theorem box_to_box_horizontal_contact_witness:
  "players_of (fst world_two_boxes) (snd world_two_boxes) = [0]
   \<and> (1 :: nat) \<noteq> 2
   \<and> rect_ok (heap (fst world_two_boxes) 1) \<and> rect_ok (heap (fst world_two_boxes) 2)
   \<and> whatside (fst world_two_boxes) (1, Item 2, box_to_box) 31 = Inr (Some SideLeft)
   \<and> alpha_box (fst world_two_boxes) 0 1 2 = 2
   \<and> fst (get_speed (globals_after
        (resolve_collision (fst world_two_boxes) (snd world_two_boxes) (1, Item 2, box_to_box))) 1)
       = 0
   \<and> fst (get_speed (globals_after
        (resolve_collision (fst world_two_boxes) (snd world_two_boxes) (1, Item 2, box_to_box))) 2)
       = 0
   \<and> rect_x (heap (globals_after
        (resolve_collision (fst world_two_boxes) (snd world_two_boxes) (1, Item 2, box_to_box))) 2)
       = rect_x (heap (fst world_two_boxes) 2)
   \<and> rect_left (heap (globals_after
        (resolve_collision (fst world_two_boxes) (snd world_two_boxes) (1, Item 2, box_to_box))) 1)
       = rect_right (heap (globals_after
        (resolve_collision (fst world_two_boxes) (snd world_two_boxes) (1, Item 2, box_to_box))) 2)
   \<and> players_of (fst world_boxes_tie) (snd world_boxes_tie) = [0]
   \<and> rect_ok (heap (fst world_boxes_tie) 1) \<and> rect_ok (heap (fst world_boxes_tie) 2)
   \<and> \<bar>rect_x (heap (fst world_boxes_tie) 0) - rect_x (heap (fst world_boxes_tie) 1)\<bar> = 45
   \<and> \<bar>rect_x (heap (fst world_boxes_tie) 0) - rect_x (heap (fst world_boxes_tie) 2)\<bar> = 45
   \<and> whatside (fst world_boxes_tie) (1, Item 2, box_to_box) 31 = Inr (Some SideRight)
   \<and> alpha_box (fst world_boxes_tie) 0 1 2 = 1
   \<and> rect_x (heap (globals_after
        (resolve_collision (fst world_boxes_tie) (snd world_boxes_tie) (1, Item 2, box_to_box))) 1)
       = rect_x (heap (fst world_boxes_tie) 1)
   \<and> rect_left (heap (globals_after
        (resolve_collision (fst world_boxes_tie) (snd world_boxes_tie) (1, Item 2, box_to_box))) 2)
       = rect_right (heap (globals_after
        (resolve_collision (fst world_boxes_tie) (snd world_boxes_tie) (1, Item 2, box_to_box))) 1)"
proof -
  have p: "players_of (fst world_two_boxes) (snd world_two_boxes) = [0]"
    by (simp add: world_two_boxes_def build_defs attr_defs Let_def)
  have ne: "(1 :: nat) \<noteq> 2"
    by simp
  have k: "rect_ok (heap (fst world_two_boxes) 1)" "rect_ok (heap (fst world_two_boxes) 2)"
    by (simp_all add: world_two_boxes_def build_defs attr_defs rect_ok_def c_int_range_def Let_def)
  have w: "whatside (fst world_two_boxes) (1, Item 2, box_to_box) 31 = Inr (Some SideLeft)"
    by (simp add: world_two_boxes_def build_defs attr_defs rect_defs whatside_def Let_def)
  have sd: "SideLeft = SideLeft \<or> SideLeft = SideRight"
    by simp
  have d: "\<bar>rect_x (heap (fst world_two_boxes) 0) - rect_x (heap (fst world_two_boxes) 1)\<bar>
             > \<bar>rect_x (heap (fst world_two_boxes) 0) - rect_x (heap (fst world_two_boxes) 2)\<bar>"
    by (simp add: world_two_boxes_def build_defs attr_defs Let_def)
  note t = box_to_box_horizontal_contact [OF p ne k(1) k(2) w sd, unfolded Let_def]
  from t d have a: "alpha_box (fst world_two_boxes) 0 1 2 = 2"
    by blast
  from t [unfolded a] ne have c:
    "fst (get_speed (globals_after
        (resolve_collision (fst world_two_boxes) (snd world_two_boxes) (1, Item 2, box_to_box))) 1)
       = 0
   \<and> fst (get_speed (globals_after
        (resolve_collision (fst world_two_boxes) (snd world_two_boxes) (1, Item 2, box_to_box))) 2)
       = 0
   \<and> rect_x (heap (globals_after
        (resolve_collision (fst world_two_boxes) (snd world_two_boxes) (1, Item 2, box_to_box))) 2)
       = rect_x (heap (fst world_two_boxes) 2)
   \<and> rect_left (heap (globals_after
        (resolve_collision (fst world_two_boxes) (snd world_two_boxes) (1, Item 2, box_to_box))) 1)
       = rect_right (heap (globals_after
        (resolve_collision (fst world_two_boxes) (snd world_two_boxes) (1, Item 2, box_to_box))) 2)"
    by simp
  have p': "players_of (fst world_boxes_tie) (snd world_boxes_tie) = [0]"
    by (simp add: world_boxes_tie_def build_defs attr_defs Let_def)
  have k': "rect_ok (heap (fst world_boxes_tie) 1)" "rect_ok (heap (fst world_boxes_tie) 2)"
    by (simp_all add: world_boxes_tie_def build_defs attr_defs rect_ok_def c_int_range_def Let_def)
  have w': "whatside (fst world_boxes_tie) (1, Item 2, box_to_box) 31 = Inr (Some SideRight)"
    by (simp add: world_boxes_tie_def build_defs attr_defs rect_defs whatside_def Let_def)
  have sd': "SideRight = SideLeft \<or> SideRight = SideRight"
    by simp
  have d': "\<bar>rect_x (heap (fst world_boxes_tie) 0) - rect_x (heap (fst world_boxes_tie) 1)\<bar> = 45"
    "\<bar>rect_x (heap (fst world_boxes_tie) 0) - rect_x (heap (fst world_boxes_tie) 2)\<bar> = 45"
    by (simp_all add: world_boxes_tie_def build_defs attr_defs Let_def)
  note t' = box_to_box_horizontal_contact [OF p' ne k'(1) k'(2) w' sd', unfolded Let_def]
  from t' d' have a': "alpha_box (fst world_boxes_tie) 0 1 2 = 1"
    by simp
  from t' [unfolded a'] ne have c':
    "rect_x (heap (globals_after
        (resolve_collision (fst world_boxes_tie) (snd world_boxes_tie) (1, Item 2, box_to_box))) 1)
       = rect_x (heap (fst world_boxes_tie) 1)
   \<and> rect_left (heap (globals_after
        (resolve_collision (fst world_boxes_tie) (snd world_boxes_tie) (1, Item 2, box_to_box))) 2)
       = rect_right (heap (globals_after
        (resolve_collision (fst world_boxes_tie) (snd world_boxes_tie) (1, Item 2, box_to_box))) 1)"
    by simp
  from p ne k w a c p' k' d' w' a' c' show ?thesis by blast
qed

end
